theory Spec2Isabelle
  imports Main "HOL-Library.Char_ord" "HOL-Library.List_Lexorder" "HOL-Library.Product_Lexorder"
begin

section \<open>The graph store\<close>

text \<open>
  The ontology service (\<^verbatim>\<open>core/ontology.py\<close>) and the store wrapper
  (\<^verbatim>\<open>core/databases/neo4j/neo4j_service.py\<close>) talk to a labelled property graph
  through Cypher queries.  The store is modelled as a value: a list of nodes and a list of
  relationships, each Cypher query of the source as a function on that value.  A store
  call that fails for reasons of transport is not part of this model, except where a
  function is parametrised by the outcome of its query (property classification).

  Property values are Cypher values as the Python driver hands them over: \<open>VNull\<close> is
  Cypher \<open>null\<close> and Python \<open>None\<close>.
\<close>

datatype val = VNull | VBool bool | VStr string | VInt int | VList "string list"

type_synonym props = "(string \<times> val) list"

record node =
  nid :: nat
  nlabels :: "string list"
  nprops :: props

record edge =
  eid :: nat
  etype :: string
  esrc :: nat
  edst :: nat
  eprops :: props

record graph =
  nodes :: "node list"
  edges :: "edge list"
  unique_name_labels :: "string list"

text \<open>\<open>n.k\<close>: a missing property reads as \<open>null\<close>.\<close>

definition prop_get :: "props \<Rightarrow> string \<Rightarrow> val" where
  "prop_get ps k = (case map_of ps k of None \<Rightarrow> VNull | Some v \<Rightarrow> v)"

text \<open>Cypher equality used as a predicate: a comparison with \<open>null\<close> is not true.\<close>

definition cy_eq :: "val \<Rightarrow> val \<Rightarrow> bool" where
  "cy_eq a b = (a \<noteq> VNull \<and> b \<noteq> VNull \<and> a = b)"

definition cy_neq :: "val \<Rightarrow> val \<Rightarrow> bool" where
  "cy_neq a b = (a \<noteq> VNull \<and> b \<noteq> VNull \<and> a \<noteq> b)"

text \<open>Python \<open>==\<close> on driver values: \<open>True == 1\<close> and \<open>False == 0\<close> hold.\<close>

fun py_eq :: "val \<Rightarrow> val \<Rightarrow> bool" where
  "py_eq (VBool b) (VInt i) = (i = (if b then 1 else 0))"
| "py_eq (VInt i) (VBool b) = (i = (if b then 1 else 0))"
| "py_eq a b = (a = b)"

definition has_label :: "node \<Rightarrow> string \<Rightarrow> bool" where
  "has_label n l = (l \<in> set (nlabels n))"

text \<open>The node pattern \<open>(n {name: $name})\<close>.\<close>

definition name_is :: "node \<Rightarrow> val \<Rightarrow> bool" where
  "name_is n v = cy_eq (prop_get (nprops n) ''name'') v"

text \<open>
  The node pattern \<open>(n:Label {name: $name})\<close>, or \<open>(n {name: $name})\<close> when the
  caller's \<^verbatim>\<open>if label:\<close> is false (\<open>None\<close> or the empty string).  Label and
  relationship-type strings spliced into a query are taken to be well-formed Cypher
  names.
\<close>

definition label_ok :: "string option \<Rightarrow> node \<Rightarrow> bool" where
  "label_ok lbl n = (case lbl of None \<Rightarrow> True | Some l \<Rightarrow> if l = [] then True else has_label n l)"

definition match_name :: "graph \<Rightarrow> val \<Rightarrow> string option \<Rightarrow> node list" where
  "match_name g v lbl = filter (\<lambda>n. label_ok lbl n \<and> name_is n v) (nodes g)"

section \<open>Errors\<close>

text \<open>
  Every exception the source raises is \<open>Exception(message)\<close>; handlers tell them apart by
  a substring of the message.  The model has one constructor per message, carrying the
  data the message is formatted from; \<open>Failed what e\<close> is the wrapper
  \<^verbatim>\<open>Exception(f"Failed to {what}: {str(e)}")\<close> of an outer \<^verbatim>\<open>except\<close>.
\<close>

datatype missing_line =
  DirectLine val val val val
| InheritedLine val val val val val

record missing_report =
  mr_concept_label :: string
  mr_concept_name :: string
  mr_direct_lines :: "missing_line list"
  mr_inherited_lines :: "missing_line list"
  mr_total_required :: nat
  mr_direct_count :: nat
  mr_inherited_count :: nat
  mr_provided :: nat
  mr_missing :: nat

datatype error =
  StoreFailure string
| DomainDoesNotExist string
| MultipleNodesFound string "string list list"
| ConceptDoesNotExist string string string
| MissingRequiredProperties missing_report
| ObjectPropertyValidationFailed "(string \<times> val) list"
| RenameNotAllowed
| RenameSourceNotFound string string
| RenameTargetExists string string
| InstanceNotFound string
| ObjectNotFound string
| TypeError string
| Failed string error

section \<open>PropertyClassifier: \<open>_identify_property_types\<close>\<close>

text \<open>
  A row of \<^verbatim>\<open>MATCH (p:Property) WHERE p.name IN $property_names
  RETURN p.name as property_name, p.property_type as property_type\<close>.  The \<open>IN\<close> test
  against a list of strings only lets string names through, so \<open>property_name\<close> is a
  string; \<open>property_type\<close> is whatever the node stores (\<open>null\<close> when it stores nothing).
\<close>

type_synonym type_row = "string \<times> val"

definition property_type_rows :: "graph \<Rightarrow> string list \<Rightarrow> type_row list" where
  "property_type_rows g property_names =
     concat (map (\<lambda>p. case prop_get (nprops p) ''name'' of
                          VStr s \<Rightarrow> (if has_label p ''Property'' \<and> s \<in> set property_names
                                     then [(s, prop_get (nprops p) ''property_type'')] else [])
                        | _ \<Rightarrow> [])
                 (nodes g))"

text \<open>
  The first loop: \<^verbatim>\<open>if prop_name: property_types[prop_name] = prop_type\<close>.  The key
  \<open>property_type\<close> is always present in a row, so the default of \<^verbatim>\<open>row.get\<close> is
  never taken.
\<close>

fun collect_types :: "type_row list \<Rightarrow> (string \<rightharpoonup> val) \<Rightarrow> (string \<rightharpoonup> val)" where
  "collect_types [] m = m"
| "collect_types ((prop_name, prop_type) # rows) m =
     collect_types rows (if prop_name \<noteq> [] then m(prop_name \<mapsto> prop_type) else m)"

text \<open>
  The second loop: names still absent default to \<open>DataProperty\<close>, each with a logged
  warning (the second component collects the names warned about, in order).
\<close>

fun default_missing ::
  "string list \<Rightarrow> (string \<rightharpoonup> val) \<times> string list \<Rightarrow> (string \<rightharpoonup> val) \<times> string list" where
  "default_missing [] acc = acc"
| "default_missing (prop_name # rest) (m, warnings) =
     default_missing rest
       (if m prop_name = None
        then (m(prop_name \<mapsto> VStr ''DataProperty''), warnings @ [prop_name])
        else (m, warnings))"

text \<open>
  The body of \<open>_identify_property_types\<close>, with the outcome of its one store query as an
  argument: \<open>Inl e\<close> when \<^verbatim>\<open>run_query\<close> raises.  The \<^verbatim>\<open>except\<close> branch returns
  \<^verbatim>\<open>{name: "DataProperty" for name in property_names}\<close> and logs an error, not a
  warning.
\<close>

definition identify_property_types_of ::
  "(error + type_row list) \<Rightarrow> string list \<Rightarrow> (string \<rightharpoonup> val) \<times> string list" where
  "identify_property_types_of query_result property_names =
     (if property_names = [] then (Map.empty, [])
      else case query_result of
             Inr rows \<Rightarrow> default_missing property_names (collect_types rows Map.empty, [])
           | Inl e \<Rightarrow> (\<lambda>k. if k \<in> set property_names then Some (VStr ''DataProperty'') else None, []))"

text \<open>\<open>_identify_property_types\<close> against the store.\<close>

definition identify_property_types ::
  "graph \<Rightarrow> string list \<Rightarrow> (string \<rightharpoonup> val) \<times> string list" where
  "identify_property_types g property_names =
     identify_property_types_of (Inr (property_type_rows g property_names)) property_names"

section \<open>NameRegistry\<close>

text \<open>
  \<open>check_name_exists\<close>: \<^verbatim>\<open>MATCH (n:Label {name: $name}) RETURN count(n) > 0\<close>.  The
  name is a driver value because \<open>_validate_object_property_targets\<close> passes whatever an
  ObjectProperty holds.
\<close>

definition check_name_exists :: "graph \<Rightarrow> val \<Rightarrow> string option \<Rightarrow> bool" where
  "check_name_exists g name lbl = (match_name g name lbl \<noteq> [])"

text \<open>
  \<open>get_existing_node\<close>: \<^verbatim>\<open>run_query_single\<close> hands back the first record, or
  \<open>None\<close> when there is none.  A node found by name has at least that property, so
  the callers' truth test on the returned node is the test for \<open>Some\<close>.
\<close>

definition get_existing_node :: "graph \<Rightarrow> string \<Rightarrow> string option \<Rightarrow> node option" where
  "get_existing_node g name lbl =
     (case match_name g (VStr name) lbl of [] \<Rightarrow> None | n # _ \<Rightarrow> Some n)"

text \<open>
  \<open>find_nodes_by_name\<close>: \<^verbatim>\<open>MATCH (n {name: $name}) RETURN ... ORDER BY labels(n)\<close>.
\<close>

definition find_nodes_by_name :: "graph \<Rightarrow> string \<Rightarrow> node list" where
  "find_nodes_by_name g name = sort_key nlabels (match_name g (VStr name) None)"

text \<open>
  The scan of \<open>auto_detect_domain_label\<close> over \<^verbatim>\<open>self.labels_to_constrain\<close>: the first
  priority label the node carries; \<^verbatim>\<open>if not primary_label\<close> then falls back to the
  node's first label, or to \<open>Node\<close> for a node without labels.
\<close>

definition primary_label :: "string list \<Rightarrow> string list \<Rightarrow> string" where
  "primary_label priority_labels node_labels =
     (let fallback = (case node_labels of [] \<Rightarrow> ''Node'' | l # _ \<Rightarrow> l)
      in case find (\<lambda>priority_label. priority_label \<in> set node_labels) priority_labels of
           None \<Rightarrow> fallback
         | Some l \<Rightarrow> if l = [] then fallback else l)"

definition auto_detect_domain_label :: "string list \<Rightarrow> graph \<Rightarrow> string \<Rightarrow> error + string" where
  "auto_detect_domain_label priority_labels g domain_name =
     (case find_nodes_by_name g domain_name of
        [] \<Rightarrow> Inl (DomainDoesNotExist domain_name)
      | [n] \<Rightarrow> Inr (primary_label priority_labels (nlabels n))
      | ns \<Rightarrow> Inl (MultipleNodesFound domain_name (map nlabels ns)))"

section \<open>InheritanceResolver\<close>

record req_row =
  rq_property_name :: val
  rq_property_type :: val
  rq_range_type :: val
  rq_comment :: val
  rq_tag :: val
  rq_required :: val
  rq_default_value :: val
  rq_inheritance_type :: string
  rq_source_concept :: val

text \<open>The \<open>RETURN\<close> clause shared by the two queries of the resolver.\<close>

definition mk_row :: "node \<Rightarrow> edge \<Rightarrow> string \<Rightarrow> val \<Rightarrow> req_row" where
  "mk_row p r inheritance source =
     \<lparr> rq_property_name = prop_get (nprops p) ''name'',
       rq_property_type = prop_get (nprops p) ''property_type'',
       rq_range_type = prop_get (nprops p) ''range'',
       rq_comment = prop_get (nprops p) ''comment'',
       rq_tag = prop_get (nprops p) ''tag'',
       rq_required = prop_get (eprops r) ''required'',
       rq_default_value = prop_get (eprops r) ''default_value'',
       rq_inheritance_type = inheritance,
       rq_source_concept = source \<rparr>"

text \<open>
  Sort key of \<open>ORDER BY\<close> on a value, ascending: lists, strings, booleans, numbers,
  and \<open>null\<close> last.
\<close>

fun val_key :: "val \<Rightarrow> nat \<times> string list \<times> int" where
  "val_key (VList xs) = (0, xs, 0)"
| "val_key (VStr s) = (1, [s], 0)"
| "val_key (VBool b) = (2, [], if b then 1 else 0)"
| "val_key (VInt i) = (3, [], i)"
| "val_key VNull = (4, [], 0)"

text \<open>\<open>(c:Label {name: $concept_name})\<close>.\<close>

definition concept_nodes :: "graph \<Rightarrow> string \<Rightarrow> string \<Rightarrow> node list" where
  "concept_nodes g concept_label concept_name =
     filter (\<lambda>c. has_label c concept_label \<and> name_is c (VStr concept_name)) (nodes g)"

text \<open>\<open>(c)-[r:HAS_PROPERTY]->\<close> with \<open>WHERE r.required = true\<close>.\<close>

definition required_edges_from :: "graph \<Rightarrow> node \<Rightarrow> edge list" where
  "required_edges_from g c =
     filter (\<lambda>r. etype r = ''HAS_PROPERTY'' \<and> esrc r = nid c
                  \<and> cy_eq (prop_get (eprops r) ''required'') (VBool True)) (edges g)"

definition nodes_at :: "graph \<Rightarrow> nat \<Rightarrow> node list" where
  "nodes_at g i = filter (\<lambda>n. nid n = i) (nodes g)"

text \<open>\<open>->(p:Property)\<close> at the end of a relationship.\<close>

definition property_nodes_at :: "graph \<Rightarrow> nat \<Rightarrow> node list" where
  "property_nodes_at g i = filter (\<lambda>p. has_label p ''Property'') (nodes_at g i)"

text \<open>
  The direct query of \<open>get_required_properties_for_concept\<close>: one row for each match of
  \<open>(c:Label {name})-[r:HAS_PROPERTY]->(p:Property)\<close> with \<open>r.required = true\<close>, tagged
  \<open>direct\<close> with \<open>$concept_name\<close> as source, \<open>ORDER BY p.name\<close>.
\<close>

definition direct_required_rows :: "graph \<Rightarrow> string \<Rightarrow> string \<Rightarrow> req_row list" where
  "direct_required_rows g concept_label concept_name =
     sort_key (\<lambda>row. val_key (rq_property_name row))
       [mk_row p r ''direct'' (VStr concept_name).
          c \<leftarrow> concept_nodes g concept_label concept_name,
          r \<leftarrow> required_edges_from g c,
          p \<leftarrow> property_nodes_at g (edst r)]"

text \<open>
  A variable-length pattern \<open>-[:T*]->\<close> matches trails: paths that use no relationship
  twice.  \<open>trails avail n\<close> lists every non-empty trail that starts at node \<open>n\<close> and
  uses relationships of \<open>avail\<close>; it terminates on cyclic graphs because each step
  consumes a relationship.
\<close>

function trails :: "edge list \<Rightarrow> nat \<Rightarrow> edge list list" where
  "trails avail n =
     concat (map (\<lambda>e. if esrc e = n
                       then [e] # map ((#) e) (trails (remove1 e avail) (edst e))
                       else [])
                 avail)"
  by pat_completeness auto
termination
proof (relation "measure (\<lambda>(avail, n). length avail)")
  show "wf (measure (\<lambda>(avail, n). length avail))"
    by simp
next
  fix avail :: "edge list" and n :: nat and e :: edge
  assume "e \<in> set avail"
  then have "0 < length avail"
    by (rule length_pos_if_in_set)
  with \<open>e \<in> set avail\<close>
  show "((remove1 e avail, edst e), (avail, n)) \<in> measure (\<lambda>(avail, n). length avail)"
    by (simp add: length_remove1)
qed

declare trails.simps [simp del]

definition subclass_trails :: "graph \<Rightarrow> node \<Rightarrow> edge list list" where
  "subclass_trails g c = trails (filter (\<lambda>e. etype e = ''SUBCLASS_OF'') (edges g)) (nid c)"

text \<open>\<open>(c)-[:SUBCLASS_OF*0..]->(intermediate)\<close>: \<open>c\<close> itself or the end of a trail.\<close>

definition reach0 :: "graph \<Rightarrow> node \<Rightarrow> nat list" where
  "reach0 g c = nid c # map (\<lambda>t. edst (last t)) (subclass_trails g c)"

text \<open>
  The subquery under \<open>NOT EXISTS\<close> of the inherited query: some node \<open>intermediate\<close>,
  reachable from \<open>c\<close>, has a \<open>HAS_PROPERTY\<close> relationship to the same Property node
  \<open>p\<close>, a name different from the parent's, and lies on a trail
  \<open>(c)-[:SUBCLASS_OF*]->(intermediate)-[:SUBCLASS_OF*]->(parent)\<close>.
\<close>

definition shadowed :: "graph \<Rightarrow> node \<Rightarrow> node \<Rightarrow> node \<Rightarrow> bool" where
  "shadowed g c parent p =
     list_ex (\<lambda>t. edst (last t) = nid parent \<and>
        list_ex (\<lambda>i. list_ex (\<lambda>intermediate.
                   nid intermediate \<in> set (reach0 g c)
                   \<and> list_ex (\<lambda>h. etype h = ''HAS_PROPERTY'' \<and> esrc h = nid intermediate
                                     \<and> edst h = nid p) (edges g)
                   \<and> cy_neq (prop_get (nprops intermediate) ''name'')
                             (prop_get (nprops parent) ''name''))
                 (nodes_at g (edst (t ! (i - 1)))))
          [1..<length t])
       (subclass_trails g c)"

text \<open>
  The inherited query: \<open>(c)-[:SUBCLASS_OF*]->(parent)-[r:HAS_PROPERTY]->(p:Property)\<close>
  with \<open>r.required = true\<close> and the \<open>NOT EXISTS\<close> filter, \<open>RETURN DISTINCT\<close>, tagged
  \<open>inherited\<close> with \<open>parent.name\<close> as source, \<open>ORDER BY parent.name, p.name\<close>.
\<close>

definition inherited_required_rows :: "graph \<Rightarrow> string \<Rightarrow> string \<Rightarrow> req_row list" where
  "inherited_required_rows g concept_label concept_name =
     sort_key (\<lambda>row. (val_key (rq_source_concept row), val_key (rq_property_name row)))
       (remdups
         [mk_row p r ''inherited'' (prop_get (nprops parent) ''name'').
            c \<leftarrow> concept_nodes g concept_label concept_name,
            t \<leftarrow> subclass_trails g c,
            parent \<leftarrow> nodes_at g (edst (last t)),
            r \<leftarrow> required_edges_from g parent,
            p \<leftarrow> property_nodes_at g (edst r),
            \<not> shadowed g c parent p])"

text \<open>
  A Python list is not hashable: building a set that holds one, or testing one for
  membership in a set, raises \<open>TypeError\<close>.  The other driver values are hashable.
\<close>

fun hashable :: "val \<Rightarrow> bool" where
  "hashable (VList xs) = False"
| "hashable v = True"

definition unhashable_list :: error where
  "unhashable_list = TypeError ''unhashable type: list''"

text \<open>
  \<open>get_required_properties_for_concept\<close>: the direct rows, then (with
  \<open>include_inherited\<close>) the inherited rows whose \<open>property_name\<close> is not in the Python
  set \<open>direct_prop_names\<close>.  The set comprehension hashes the name of every direct
  row and the membership test hashes the name of every inherited row; a name that is a
  list makes either raise, and the \<^verbatim>\<open>except\<close> re-raises it as
  \<open>Failed to get required properties: ...\<close>.  Without \<open>include_inherited\<close> no name
  is hashed.
\<close>

definition get_required_properties_for_concept ::
  "graph \<Rightarrow> string \<Rightarrow> string \<Rightarrow> bool \<Rightarrow> error + req_row list" where
  "get_required_properties_for_concept g concept_name concept_label include_inherited =
     (let direct_props = direct_required_rows g concept_label concept_name
      in if include_inherited
         then let inherited_props = inherited_required_rows g concept_label concept_name
              in if list_all (\<lambda>prop. hashable (rq_property_name prop)) direct_props
                    \<and> list_all (\<lambda>inherited_prop. hashable (rq_property_name inherited_prop))
                         inherited_props
                 then Inr (direct_props @
                        filter (\<lambda>inherited_prop.
                            \<not> list_ex (\<lambda>prop. py_eq (rq_property_name prop)
                                                 (rq_property_name inherited_prop))
                                 direct_props)
                          inherited_props)
                 else Inl (Failed ''get required properties'' unhashable_list)
         else Inr direct_props)"

section \<open>ValidationEngine\<close>

record prop_info =
  pi_name :: val
  pi_type :: val
  pi_range :: val
  pi_comment :: val
  pi_tag :: val
  pi_inheritance_type :: string
  pi_source_concept :: val
  pi_default_value :: val

record validation_result =
  vr_valid :: bool
  vr_total_required :: nat
  vr_direct_required :: nat
  vr_inherited_required :: nat
  vr_provided_count :: nat
  vr_missing_properties :: "prop_info list"
  vr_missing_direct :: "prop_info list"
  vr_missing_inherited :: "prop_info list"
  vr_required_properties :: "req_row list"
  vr_inheritance_enabled :: bool

text \<open>
  \<^verbatim>\<open>prop_name not in provided_prop_names\<close>: the provided names are a Python set of
  the string keys of a dict.  A required name that is a list cannot be hashed and the
  test raises \<open>TypeError\<close>; any other name that is not a string is never among them.
\<close>

definition not_provided :: "string list \<Rightarrow> req_row \<Rightarrow> error + bool" where
  "not_provided provided_prop_names req_prop =
     (case rq_property_name req_prop of
        VStr s \<Rightarrow> Inr (s \<notin> set provided_prop_names)
      | VList xs \<Rightarrow> Inl unhashable_list
      | _ \<Rightarrow> Inr True)"

text \<open>
  The loop over \<open>required_props\<close>: the rows whose name is not provided, in order; the
  first name that cannot be hashed ends it with the exception.
\<close>

fun collect_missing :: "string list \<Rightarrow> req_row list \<Rightarrow> error + req_row list" where
  "collect_missing provided_prop_names [] = Inr []"
| "collect_missing provided_prop_names (req_prop # rest) =
     (case not_provided provided_prop_names req_prop of
        Inl e \<Rightarrow> Inl e
      | Inr missing \<Rightarrow>
          (case collect_missing provided_prop_names rest of
             Inl e \<Rightarrow> Inl e
           | Inr others \<Rightarrow> Inr (if missing then req_prop # others else others)))"

definition prop_info_of :: "req_row \<Rightarrow> prop_info" where
  "prop_info_of req_prop =
     \<lparr> pi_name = rq_property_name req_prop,
       pi_type = rq_property_type req_prop,
       pi_range = rq_range_type req_prop,
       pi_comment = rq_comment req_prop,
       pi_tag = rq_tag req_prop,
       pi_inheritance_type = rq_inheritance_type req_prop,
       pi_source_concept = rq_source_concept req_prop,
       pi_default_value = rq_default_value req_prop \<rparr>"

text \<open>
  The lines of the error message, one per missing property: a direct line prints name,
  type, default and comment under the header that names the concept; an inherited line
  also prints \<open>from '<source_concept>'\<close>.  A default of \<open>None\<close> prints nothing.
\<close>

definition direct_line :: "prop_info \<Rightarrow> missing_line" where
  "direct_line prop = DirectLine (pi_name prop) (pi_type prop) (pi_default_value prop) (pi_comment prop)"

definition inherited_line :: "prop_info \<Rightarrow> missing_line" where
  "inherited_line prop =
     InheritedLine (pi_name prop) (pi_type prop) (pi_default_value prop)
       (pi_source_concept prop) (pi_comment prop)"

text \<open>
  \<open>validate_instance_properties\<close>.  The loop appends every missing property to
  \<open>missing_props\<close>; the result dictionary is built with
  \<open>valid = (len(missing_props) == 0)\<close>; when it is not valid the function raises the
  exception whose message enumerates \<open>missing_direct\<close> and \<open>missing_inherited\<close>,
  otherwise it returns the dictionary.  The \<^verbatim>\<open>except\<close> re-raises that exception as
  it is and wraps any other as \<open>Failed to validate instance properties: ...\<close>.
  \<open>provided_properties\<close> is a Python dict, as a list of items.
\<close>

definition validate_instance_properties ::
  "graph \<Rightarrow> string \<Rightarrow> props \<Rightarrow> string \<Rightarrow> bool \<Rightarrow> error + validation_result" where
  "validate_instance_properties g concept_name provided_properties concept_label include_inherited =
     (case get_required_properties_for_concept g concept_name concept_label include_inherited of
        Inl e \<Rightarrow> Inl (Failed ''validate instance properties'' e)
      | Inr required_props \<Rightarrow>
          (let provided_prop_names = remdups (map fst provided_properties)
           in case collect_missing provided_prop_names required_props of
                Inl e \<Rightarrow> Inl (Failed ''validate instance properties'' e)
              | Inr missing_rows \<Rightarrow>
                  (let missing_props = map prop_info_of missing_rows;
                       missing_direct = filter (\<lambda>p. pi_inheritance_type p = ''direct'') missing_props;
                       missing_inherited =
                         filter (\<lambda>p. pi_inheritance_type p = ''inherited'') missing_props;
                       direct_count =
                         length (filter (\<lambda>p. rq_inheritance_type p = ''direct'') required_props);
                       inherited_count =
                         length (filter (\<lambda>p. rq_inheritance_type p = ''inherited'') required_props);
                       validation_result =
                         \<lparr> vr_valid = (length missing_props = 0),
                           vr_total_required = length required_props,
                           vr_direct_required = direct_count,
                           vr_inherited_required = inherited_count,
                           vr_provided_count = length provided_prop_names,
                           vr_missing_properties = missing_props,
                           vr_missing_direct = missing_direct,
                           vr_missing_inherited = missing_inherited,
                           vr_required_properties = required_props,
                           vr_inheritance_enabled = include_inherited \<rparr>
                   in if \<not> vr_valid validation_result
                      then Inl (MissingRequiredProperties
                             \<lparr> mr_concept_label = concept_label,
                               mr_concept_name = concept_name,
                               mr_direct_lines = map direct_line missing_direct,
                               mr_inherited_lines = map inherited_line missing_inherited,
                               mr_total_required = length required_props,
                               mr_direct_count = direct_count,
                               mr_inherited_count = inherited_count,
                               mr_provided = length provided_prop_names,
                               mr_missing = length missing_props \<rparr>)
                      else Inr validation_result)))"

section \<open>Results of write operations\<close>

text \<open>
  The source returns Python dictionaries; the model keeps them as lists of items in
  insertion order.  \<open>dict_set\<close> is \<^verbatim>\<open>d[k] = v\<close>, \<open>dict_get d k dflt\<close> is
  \<^verbatim>\<open>d.get(k, dflt)\<close>.
\<close>

datatype entity = NodeE node | EdgeE edge

datatype rval =
  RNat nat
| RBool bool
| RStr string
| RVal val
| RNone
| RRecords "entity list"
| RError error
| RDicts "(string \<times> rval) list list"

type_synonym result = "(string \<times> rval) list"

fun dict_set :: "('k \<times> 'v) list \<Rightarrow> 'k \<Rightarrow> 'v \<Rightarrow> ('k \<times> 'v) list" where
  "dict_set [] k v = [(k, v)]"
| "dict_set ((k', v') # d) k v = (if k' = k then (k, v) # d else (k', v') # dict_set d k v)"

definition dict_get :: "('k \<times> 'v) list \<Rightarrow> 'k \<Rightarrow> 'v \<Rightarrow> 'v" where
  "dict_get d k dflt = (case map_of d k of None \<Rightarrow> dflt | Some v \<Rightarrow> v)"

text \<open>\<open>d.update(d')\<close>.\<close>

definition dict_update :: "('k \<times> 'v) list \<Rightarrow> ('k \<times> 'v) list \<Rightarrow> ('k \<times> 'v) list" where
  "dict_update d d' = fold (\<lambda>(k, v) acc. dict_set acc k v) d' d"

fun rnat :: "rval \<Rightarrow> nat" where
  "rnat (RNat n) = n"
| "rnat _ = 0"

text \<open>The statistics dictionary \<open>execute_write\<close> builds from the store's counters.\<close>

definition write_stats :: "entity list \<Rightarrow> nat \<Rightarrow> nat \<Rightarrow> nat \<Rightarrow> nat \<Rightarrow> nat \<Rightarrow> nat \<Rightarrow> result" where
  "write_stats records created deleted rels_created rels_deleted props_set labels =
     [(''records'', RRecords records),
      (''nodes_created'', RNat created),
      (''nodes_deleted'', RNat deleted),
      (''relationships_created'', RNat rels_created),
      (''relationships_deleted'', RNat rels_deleted),
      (''properties_set'', RNat props_set),
      (''labels_added'', RNat labels),
      (''labels_removed'', RNat 0),
      (''indexes_added'', RNat 0),
      (''indexes_removed'', RNat 0),
      (''constraints_added'', RNat 0),
      (''constraints_removed'', RNat 0)]"

text \<open>
  The dictionary returned for a skipped write, by \<open>execute_write\<close> on an
  ``already exists'' constraint error and by \<open>create_relationship\<close> on its pre-check.
\<close>

definition skipped_stats :: "string \<Rightarrow> result" where
  "skipped_stats warning =
     write_stats [] 0 0 0 0 0 0 @ [(''status'', RStr ''already_exists''), (''warning'', RStr warning)]"

section \<open>Store writes\<close>

text \<open>\<open>SET n.k = v\<close>: setting a property to \<open>null\<close> removes it.\<close>

definition set_prop :: "props \<Rightarrow> string \<Rightarrow> val \<Rightarrow> props" where
  "set_prop ps k v = (if v = VNull then filter (\<lambda>(k', _). k' \<noteq> k) ps else dict_set ps k v)"

definition set_props :: "props \<Rightarrow> props \<Rightarrow> props" where
  "set_props ps new = fold (\<lambda>(k, v) acc. set_prop acc k v) new ps"

text \<open>
  Uniqueness constraints (\<open>setup_uniqueness_constraints\<close>): for each constrained label,
  no two nodes with that label store the same \<open>name\<close>.  A write that would break one
  raises the store's ``already exists'' constraint error, which \<open>execute_write\<close> turns
  into the skipped result.
\<close>

definition constraint_ok :: "graph \<Rightarrow> bool" where
  "constraint_ok g =
     list_all (\<lambda>l. distinct (filter (\<lambda>v. v \<noteq> VNull)
                       (map (\<lambda>n. prop_get (nprops n) ''name'') (filter (\<lambda>n. has_label n l) (nodes g)))))
       (unique_name_labels g)"

definition fresh_id :: "graph \<Rightarrow> nat" where
  "fresh_id g = Suc (foldr max (map nid (nodes g) @ map eid (edges g)) 0)"

text \<open>\<open>DETACH DELETE\<close> of the nodes with the given identities.\<close>

definition detach_delete :: "graph \<Rightarrow> nat list \<Rightarrow> graph" where
  "detach_delete g ids =
     g\<lparr> nodes := filter (\<lambda>n. nid n \<notin> set ids) (nodes g),
        edges := filter (\<lambda>e. esrc e \<notin> set ids \<and> edst e \<notin> set ids) (edges g) \<rparr>"

section \<open>RelationshipManager: \<open>create_relationship\<close>\<close>

text \<open>
  An endpoint pattern as every caller writes it: \<open>:L1:L2 {key: $param, ...}\<close>, with the
  parameter values in a separate dictionary.  \<open>create_relationship\<close> merges
  \<open>from_params\<close> and \<open>to_params\<close> into one dictionary, \<open>to_params\<close> last; a parameter
  the query names and the dictionary lacks makes the store call raise.
\<close>

record node_pattern =
  np_labels :: "string list"
  np_params :: "(string \<times> string) list"

definition merge_params :: "props option \<Rightarrow> props option \<Rightarrow> props" where
  "merge_params from_params to_params =
     dict_update (dict_update [] (case from_params of None \<Rightarrow> [] | Some d \<Rightarrow> d))
                 (case to_params of None \<Rightarrow> [] | Some d \<Rightarrow> d)"

definition params_bound :: "node_pattern \<Rightarrow> props \<Rightarrow> bool" where
  "params_bound pat params = list_all (\<lambda>(k, param). map_of params param \<noteq> None) (np_params pat)"

definition match_pattern :: "graph \<Rightarrow> node_pattern \<Rightarrow> props \<Rightarrow> node list" where
  "match_pattern g pat params =
     filter (\<lambda>n. list_all (has_label n) (np_labels pat)
                  \<and> list_all (\<lambda>(k, param). cy_eq (prop_get (nprops n) k) (prop_get params param))
                       (np_params pat))
       (nodes g)"

text \<open>\<open>EXISTS((from)-[:T]->(to))\<close>.\<close>

definition relationship_exists :: "graph \<Rightarrow> string \<Rightarrow> node \<Rightarrow> node \<Rightarrow> bool" where
  "relationship_exists g relationship_type from to =
     list_ex (\<lambda>e. etype e = relationship_type \<and> esrc e = nid from \<and> edst e = nid to) (edges g)"

text \<open>
  The pairs matched by \<^verbatim>\<open>MATCH (from ...) MATCH (to ...)\<close>, one row each.
\<close>

definition endpoint_pairs :: "graph \<Rightarrow> node_pattern \<Rightarrow> node_pattern \<Rightarrow> props \<Rightarrow> (node \<times> node) list" where
  "endpoint_pairs g from_node_query to_node_query params =
     [(from, to). from \<leftarrow> match_pattern g from_node_query params,
                  to \<leftarrow> match_pattern g to_node_query params]"

text \<open>
  The relationships \<^verbatim>\<open>CREATE (from)-[r:T $rel_props]->(to)\<close> adds, one per row;
  \<open>null\<close>-valued entries of the property map are not stored.
\<close>

definition new_edges :: "nat \<Rightarrow> string \<Rightarrow> props \<Rightarrow> (node \<times> node) list \<Rightarrow> edge list" where
  "new_edges first_id relationship_type rel_props pairs =
     map (\<lambda>(i, (from, to)).
            \<lparr> eid = first_id + i, etype = relationship_type, esrc = nid from, edst = nid to,
              eprops = filter (\<lambda>(k, v). v \<noteq> VNull) rel_props \<rparr>)
         (zip [0..<length pairs] pairs)"

text \<open>
  \<open>create_relationship\<close>.  The pre-check reads the first record of the check query
  (\<open>run_query_value\<close>); no record means \<open>None\<close>, which is false.  Creating a relationship
  cannot break a uniqueness constraint on node names.
\<close>

definition create_relationship ::
  "graph \<Rightarrow> node_pattern \<Rightarrow> node_pattern \<Rightarrow> string \<Rightarrow> props option \<Rightarrow> props option \<Rightarrow> props option
     \<Rightarrow> graph \<times> (error + result)" where
  "create_relationship g from_node_query to_node_query relationship_type properties from_params to_params =
     (let params = merge_params from_params to_params;
          pairs = endpoint_pairs g from_node_query to_node_query params;
          rel_props = (case properties of None \<Rightarrow> [] | Some d \<Rightarrow> d)
      in if \<not> (params_bound from_node_query params \<and> params_bound to_node_query params)
         then (g, Inl (StoreFailure ''Expected parameter(s)''))
         else if (case pairs of [] \<Rightarrow> False | (from, to) # _ \<Rightarrow> relationship_exists g relationship_type from to)
         then (g, Inr (skipped_stats (''Relationship '' @ relationship_type @ '' already exists and was skipped'')))
         else let created = new_edges (fresh_id g) relationship_type rel_props pairs
              in (g\<lparr> edges := edges g @ created \<rparr>,
                  Inr (write_stats (map EdgeE created) 0 0 (length created) 0
                         (length created * length (filter (\<lambda>(k, v). v \<noteq> VNull) rel_props)) 0)))"

section \<open>InstanceLifecycleManager: node writes\<close>

text \<open>\<open>_add_common_properties\<close>; \<open>now\<close> is \<^verbatim>\<open>datetime.now().isoformat()\<close>.\<close>

definition add_common_properties :: "string \<Rightarrow> props \<Rightarrow> props" where
  "add_common_properties now properties =
     (let p1 = (if map_of properties ''comment'' = None then dict_set properties ''comment'' (VStr []) else properties);
          p2 = (if map_of p1 ''tag'' = None then dict_set p1 ''tag'' (VStr []) else p1)
      in dict_set p2 ''created_at'' (VStr now))"

text \<open>
  \<open>_create_node_with_merge\<close>:
  \<^verbatim>\<open>MERGE (n:L1:L2 {name: $name}) ON CREATE SET n += $properties RETURN n\<close>.
  A node with all the labels and the name is matched and left as it is; otherwise one is
  created, unless that breaks a uniqueness constraint.
\<close>

definition create_node_with_merge ::
  "graph \<Rightarrow> string \<Rightarrow> string \<Rightarrow> props \<Rightarrow> string list option \<Rightarrow> graph \<times> result" where
  "create_node_with_merge g label name properties additional_labels =
     (let labels_list = label # (case additional_labels of None \<Rightarrow> [] | Some ls \<Rightarrow> ls);
          matched = filter (\<lambda>n. list_all (has_label n) labels_list \<and> name_is n (VStr name)) (nodes g);
          n = \<lparr> nid = fresh_id g, nlabels = labels_list,
                nprops = set_props [(''name'', VStr name)] properties \<rparr>;
          g' = g\<lparr> nodes := nodes g @ [n] \<rparr>
      in if matched \<noteq> [] then (g, write_stats (map NodeE matched) 0 0 0 0 0 0)
         else if constraint_ok g'
         then (g', write_stats [NodeE n] 1 0 0 0 (1 + length properties) (length labels_list))
         else (g, skipped_stats ''Item already exists and was skipped''))"

text \<open>
  \<open>_update_node\<close>: \<^verbatim>\<open>MATCH (n:Label {name: $name}) SET n.k = $k, ... RETURN n\<close>.
  The parameters are \<^verbatim>\<open>{"name": name}\<close> updated with the properties, so a \<open>name\<close>
  key among the properties replaces the name the query matches on.
\<close>

definition update_node :: "graph \<Rightarrow> string \<Rightarrow> string \<Rightarrow> string \<Rightarrow> props \<Rightarrow> graph \<times> result" where
  "update_node g now name label properties =
     (let properties' = dict_set properties ''updated_at'' (VStr now);
          params = dict_update [(''name'', VStr name)] properties';
          hit = (\<lambda>n. has_label n label \<and> name_is n (prop_get params ''name''));
          g' = g\<lparr> nodes := map (\<lambda>n. if hit n then n\<lparr> nprops := set_props (nprops n) properties' \<rparr> else n)
                               (nodes g) \<rparr>;
          committed = constraint_ok g'
      in (if committed then g' else g,
          [(''records'', RRecords (if committed then map NodeE (filter hit (nodes g')) else [])),
           (''nodes_created'', RNat 0),
           (''nodes_updated'', RNat 1),
           (''properties_set'', RNat (length properties')),
           (''status'', RStr ''updated'')]))"

text \<open>
  \<open>_rename_node\<close>.  Equal names return \<open>no_op\<close> before any check; then the source must
  exist and the target name must be free under the label; then
  \<^verbatim>\<open>MATCH (n:Label {name: $old_name}) SET n.name = $new_name, n.updated_at = $updated_at\<close>.
\<close>

definition rename_node ::
  "graph \<Rightarrow> string \<Rightarrow> string \<Rightarrow> string \<Rightarrow> string \<Rightarrow> graph \<times> (error + result)" where
  "rename_node g now old_name label new_name =
     (if old_name = new_name
      then (g, Inr [(''records'', RRecords []), (''nodes_created'', RNat 0),
                    (''nodes_updated'', RNat 0), (''properties_set'', RNat 0),
                    (''status'', RStr ''no_op'')])
      else case get_existing_node g old_name (Some label) of
             None \<Rightarrow> (g, Inl (RenameSourceNotFound old_name label))
           | Some existing \<Rightarrow>
               if check_name_exists g (VStr new_name) (Some label)
               then (g, Inl (RenameTargetExists new_name label))
               else let hit = (\<lambda>n. has_label n label \<and> name_is n (VStr old_name));
                        g' = g\<lparr> nodes :=
                                map (\<lambda>n. if hit n
                                          then n\<lparr> nprops := set_props (nprops n)
                                                    [(''name'', VStr new_name), (''updated_at'', VStr now)] \<rparr>
                                          else n)
                                    (nodes g) \<rparr>;
                        committed = constraint_ok g'
                    in (if committed then g' else g,
                        Inr [(''records'', RRecords (if committed
                                 then map NodeE (filter (\<lambda>n. has_label n label \<and> name_is n (VStr new_name)
                                                          \<and> nid n \<in> set (map nid (filter hit (nodes g)))) (nodes g'))
                                 else [])),
                             (''nodes_created'', RNat 0),
                             (''nodes_updated'', RNat 1),
                             (''properties_set'', RNat 1),
                             (''status'', RStr ''renamed'')]))"

section \<open>ObjectProperty helpers\<close>

text \<open>A single target name or a list of target names.\<close>

fun target_names :: "val \<Rightarrow> val list" where
  "target_names (VList xs) = map VStr xs"
| "target_names v = [v]"

text \<open>
  \<open>_validate_object_property_targets\<close>: every target of every property is looked up
  and the missing ones are collected; the exception is raised after the iteration, from the
  whole list.
\<close>

definition missing_targets :: "graph \<Rightarrow> props \<Rightarrow> (string \<times> val) list" where
  "missing_targets g object_properties =
     [(prop_name, target_name).
        (prop_name, target_value) \<leftarrow> object_properties,
        target_name \<leftarrow> target_names target_value,
        \<not> check_name_exists g target_name (Some ''Instance'')]"

definition validate_object_property_targets :: "graph \<Rightarrow> props \<Rightarrow> error + unit" where
  "validate_object_property_targets g object_properties =
     (if missing_targets g object_properties \<noteq> []
      then Inl (ObjectPropertyValidationFailed (missing_targets g object_properties))
      else Inr ())"

text \<open>
  \<^verbatim>\<open>prop_name.upper().replace(" ", "_").replace("-", "_")\<close>, on ASCII letters.
\<close>

definition upper_char :: "char \<Rightarrow> char" where
  "upper_char c =
     (let n = (of_char c :: nat) in if 97 \<le> n \<and> n \<le> 122 then char_of (n - 32) else c)"

definition sanitize_rel_type :: "string \<Rightarrow> string" where
  "sanitize_rel_type prop_name =
     map (\<lambda>c. if c = CHR '' '' \<or> c = CHR ''-'' then CHR ''_'' else c) (map upper_char prop_name)"

definition instance_pattern :: "string \<Rightarrow> node_pattern" where
  "instance_pattern param = \<lparr> np_labels = [''Instance''], np_params = [(''name'', param)] \<rparr>"

text \<open>
  The body of the inner loop of \<open>_create_object_property_relationships\<close> for one
  target: the relationship is created through \<open>create_relationship\<close>, and an exception
  becomes a failure entry of the result list.
\<close>

definition create_object_property_relationship ::
  "graph \<Rightarrow> string \<Rightarrow> string \<Rightarrow> string \<Rightarrow> val \<Rightarrow> graph \<times> result" where
  "create_object_property_relationship g now instance_name prop_name target_name =
     (let rel_properties = [(''property_name'', VStr prop_name),
                            (''property_type'', VStr ''ObjectProperty''),
                            (''created_at'', VStr now)];
          rel_type = sanitize_rel_type prop_name
      in case create_relationship g (instance_pattern ''from_instance'') (instance_pattern ''to_instance'')
                rel_type (Some rel_properties)
                (Some [(''from_instance'', VStr instance_name)])
                (Some [(''to_instance'', target_name)]) of
           (g', Inr relationship_result) \<Rightarrow>
             (g', if map_of relationship_result ''status'' = Some (RStr ''already_exists'')
                  then [(''property'', RStr prop_name), (''target'', RVal target_name),
                        (''relationship_type'', RStr rel_type), (''success'', RBool True),
                        (''status'', RStr ''already_exists''), (''relationships_created'', RNat 0),
                        (''warning'', dict_get relationship_result ''warning'' RNone)]
                  else [(''property'', RStr prop_name), (''target'', RVal target_name),
                        (''relationship_type'', RStr rel_type), (''success'', RBool True),
                        (''status'', RStr ''created''),
                        (''relationships_created'',
                           dict_get relationship_result ''relationships_created'' (RNat 1))])
         | (g', Inl rel_error) \<Rightarrow>
             (g', [(''property'', RStr prop_name), (''target'', RVal target_name),
                   (''relationship_type'', RStr rel_type), (''success'', RBool False),
                   (''error'', RError rel_error), (''relationships_created'', RNat 0)]))"

fun create_for_targets ::
  "graph \<Rightarrow> string \<Rightarrow> string \<Rightarrow> string \<Rightarrow> val list \<Rightarrow> result list \<Rightarrow> graph \<times> result list" where
  "create_for_targets g now instance_name prop_name [] results = (g, results)"
| "create_for_targets g now instance_name prop_name (target_name # rest) results =
     (case create_object_property_relationship g now instance_name prop_name target_name of
        (g', r) \<Rightarrow> create_for_targets g' now instance_name prop_name rest (results @ [r]))"

fun create_object_property_relationships_loop ::
  "graph \<Rightarrow> string \<Rightarrow> string \<Rightarrow> props \<Rightarrow> result list \<Rightarrow> graph \<times> result list" where
  "create_object_property_relationships_loop g now instance_name [] results = (g, results)"
| "create_object_property_relationships_loop g now instance_name ((prop_name, target_value) # rest) results =
     (case create_for_targets g now instance_name prop_name (target_names target_value) results of
        (g', results') \<Rightarrow> create_object_property_relationships_loop g' now instance_name rest results')"

definition create_object_property_relationships ::
  "graph \<Rightarrow> string \<Rightarrow> string \<Rightarrow> props \<Rightarrow> graph \<times> result list" where
  "create_object_property_relationships g now instance_name object_properties =
     create_object_property_relationships_loop g now instance_name object_properties []"

text \<open>
  \<open>_replace_object_property_relationships\<close>: for each property,
  \<^verbatim>\<open>MATCH (:Instance {name: $from_instance})-[r:T]->(:Instance) DELETE r\<close>, then the
  relationships are created anew.
\<close>

definition delete_outgoing :: "graph \<Rightarrow> string \<Rightarrow> string \<Rightarrow> graph" where
  "delete_outgoing g instance_name rel_type =
     g\<lparr> edges :=
          filter (\<lambda>r. \<not> (etype r = rel_type
                          \<and> list_ex (\<lambda>n. has_label n ''Instance'' \<and> name_is n (VStr instance_name))
                               (nodes_at g (esrc r))
                          \<and> list_ex (\<lambda>n. has_label n ''Instance'') (nodes_at g (edst r))))
                 (edges g) \<rparr>"

definition replace_object_property_relationships ::
  "graph \<Rightarrow> string \<Rightarrow> string \<Rightarrow> props \<Rightarrow> graph \<times> result list" where
  "replace_object_property_relationships g now instance_name object_properties =
     create_object_property_relationships
       (fold (\<lambda>(prop_name, target_value) acc. delete_outgoing acc instance_name (sanitize_rel_type prop_name))
             object_properties g)
       now instance_name object_properties"

section \<open>InstanceLifecycleManager: \<open>create_instance_node\<close>\<close>

text \<open>
  The keyword arguments of \<open>create_instance_node\<close>.  \<open>properties\<close> is the dictionary as
  a list of items; the source treats \<open>None\<close> and the empty dictionary alike, both are
  \<open>[]\<close> here.
\<close>

record instance_args =
  arg_instance_name :: string
  arg_concept_type :: string
  arg_properties :: props
  arg_additional_labels :: "string list option"
  arg_allow_update :: bool
  arg_validate_required_properties :: bool
  arg_concept_label :: "string option"
  arg_auto_create_relationship :: bool
  arg_auto_create_object_property_relationships :: bool

text \<open>The call with every keyword argument at its default.\<close>

definition default_args :: "string \<Rightarrow> string \<Rightarrow> props \<Rightarrow> instance_args" where
  "default_args instance_name concept_type properties =
     \<lparr> arg_instance_name = instance_name, arg_concept_type = concept_type,
       arg_properties = properties, arg_additional_labels = None,
       arg_allow_update = False, arg_validate_required_properties = True,
       arg_concept_label = None, arg_auto_create_relationship = True,
       arg_auto_create_object_property_relationships = True \<rparr>"

text \<open>
  \<^verbatim>\<open>properties.get("name")\<close> when it is a string: the requested new name.
\<close>

definition requested_new_name :: "props \<Rightarrow> string option" where
  "requested_new_name properties =
     (case map_of properties ''name'' of Some (VStr s) \<Rightarrow> Some s | _ \<Rightarrow> None)"

text \<open>
  \<^verbatim>\<open>requested_new_name and requested_new_name != instance_name\<close>.
\<close>

definition rename_requested :: "props \<Rightarrow> string \<Rightarrow> bool" where
  "rename_requested properties instance_name =
     (case requested_new_name properties of
        None \<Rightarrow> False
      | Some s \<Rightarrow> s \<noteq> [] \<and> s \<noteq> instance_name)"

text \<open>
  Step 1: with \<open>auto_create_relationship\<close> the concept label is detected when none is
  given, and the concept must exist under it.  The result is the concept label used from
  here on.
\<close>

definition resolve_concept :: "string list \<Rightarrow> graph \<Rightarrow> instance_args \<Rightarrow> error + string option" where
  "resolve_concept priority_labels g a =
     (if arg_auto_create_relationship a
      then case (case arg_concept_label a of
                   None \<Rightarrow> auto_detect_domain_label priority_labels g (arg_concept_type a)
                 | Some l \<Rightarrow> if l = []
                            then auto_detect_domain_label priority_labels g (arg_concept_type a)
                            else Inr l) of
             Inl e \<Rightarrow> Inl e
           | Inr l \<Rightarrow>
               (case get_existing_node g (arg_concept_type a) (Some l) of
                  None \<Rightarrow> Inl (ConceptDoesNotExist (arg_concept_type a) l (arg_instance_name a))
                | Some concept_node \<Rightarrow> Inr (Some l))
      else Inr (arg_concept_label a))"

text \<open>The dictionary without its \<open>name\<close> key.\<close>

definition without_name :: "props \<Rightarrow> props" where
  "without_name properties = filter (\<lambda>(k, v). k \<noteq> ''name'') properties"

text \<open>
  Step 2: the properties other than \<open>name\<close> are split by their classified type; only
  \<open>ObjectProperty\<close> goes to the object bucket.
\<close>

definition is_object_property :: "graph \<Rightarrow> props \<Rightarrow> string \<Rightarrow> bool" where
  "is_object_property g properties prop_name =
     (let property_types = fst (identify_property_types g (map fst (without_name properties)))
      in (case property_types prop_name of None \<Rightarrow> VStr ''DataProperty'' | Some t \<Rightarrow> t)
           = VStr ''ObjectProperty'')"

definition data_properties_of :: "graph \<Rightarrow> props \<Rightarrow> props" where
  "data_properties_of g properties =
     filter (\<lambda>(k, v). \<not> is_object_property g properties k) (without_name properties)"

definition object_properties_of :: "graph \<Rightarrow> props \<Rightarrow> props" where
  "object_properties_of g properties =
     filter (\<lambda>(k, v). is_object_property g properties k) (without_name properties)"

text \<open>
  The concept label as the f-string of the validation queries prints it: \<open>None\<close> is
  the text \<open>None\<close>.
\<close>

definition label_text :: "string option \<Rightarrow> string" where
  "label_text concept_label = (case concept_label of None \<Rightarrow> ''None'' | Some l \<Rightarrow> l)"

text \<open>
  Steps 1 to 4, all of them reads: concept check, classification, required-property
  validation (on the properties without \<open>name\<close>, or on the empty dictionary), and the
  ObjectProperty target check.  On success the resolved concept label comes back.
\<close>

definition pre_checks :: "string list \<Rightarrow> graph \<Rightarrow> instance_args \<Rightarrow> error + string option" where
  "pre_checks priority_labels g a =
     (case resolve_concept priority_labels g a of
        Inl e \<Rightarrow> Inl e
      | Inr concept_label \<Rightarrow>
          (case (if arg_validate_required_properties a
                 then map_sum id (\<lambda>validation. ())
                        (validate_instance_properties g (arg_concept_type a)
                           (without_name (arg_properties a)) (label_text concept_label) True)
                 else Inr ()) of
             Inl e \<Rightarrow> Inl e
           | Inr validated \<Rightarrow>
               (case (if arg_auto_create_object_property_relationships a
                         \<and> object_properties_of g (arg_properties a) \<noteq> []
                      then validate_object_property_targets g (object_properties_of g (arg_properties a))
                      else Inr ()) of
                  Inl e \<Rightarrow> Inl e
                | Inr targets_ok \<Rightarrow> Inr concept_label)))"

text \<open>The dictionary returned for an existing instance that is not to be updated.\<close>

definition already_exists_result :: "node \<Rightarrow> result" where
  "already_exists_result existing_node =
     [(''records'', RRecords [NodeE existing_node]),
      (''nodes_created'', RNat 0),
      (''nodes_updated'', RNat 0),
      (''properties_set'', RNat 0),
      (''status'', RStr ''already_exists''),
      (''auto_relationship_created'', RBool False)]"

text \<open>
  The branch for an existing instance.  With \<open>allow_update\<close> and properties: validation
  of the merged properties, the rename if one is requested, the update of the data
  properties, the replacement of the ObjectProperty relationships.  Otherwise a
  requested rename is refused and the node is returned as it is.
\<close>

definition update_existing ::
  "graph \<Rightarrow> string \<Rightarrow> instance_args \<Rightarrow> string option \<Rightarrow> node \<Rightarrow> graph \<times> (error + result)" where
  "update_existing g now a concept_label existing_node =
     (let properties = arg_properties a;
          instance_name = arg_instance_name a;
          data_properties = data_properties_of g properties;
          object_properties = object_properties_of g properties
      in if arg_allow_update a \<and> properties \<noteq> []
         then case (if arg_validate_required_properties a
                    then map_sum id (\<lambda>validation. ())
                           (validate_instance_properties g (arg_concept_type a)
                              (dict_update (nprops existing_node) (without_name properties))
                              (label_text concept_label) True)
                    else Inr ()) of
                Inl e \<Rightarrow> (g, Inl e)
              | Inr validated \<Rightarrow>
                  (case (case requested_new_name properties of
                           None \<Rightarrow> (g, Inr instance_name)
                         | Some new_name \<Rightarrow>
                             if new_name \<noteq> [] \<and> new_name \<noteq> instance_name
                             then (case rename_node g now instance_name ''Instance'' new_name of
                                     (g1, Inl e) \<Rightarrow> (g1, Inl e)
                                   | (g1, Inr renamed) \<Rightarrow> (g1, Inr new_name))
                             else (g, Inr instance_name)) of
                     (g1, Inl e) \<Rightarrow> (g1, Inl e)
                   | (g1, Inr instance_name') \<Rightarrow>
                       (case update_node g1 now instance_name' ''Instance'' data_properties of
                          (g2, update_result) \<Rightarrow>
                            if arg_auto_create_object_property_relationships a \<and> object_properties \<noteq> []
                            then (case replace_object_property_relationships g2 now instance_name'
                                         object_properties of
                                    (g3, obj_rel_results) \<Rightarrow>
                                      (g3, Inr (dict_set update_result ''object_property_relationships''
                                                  (RDicts obj_rel_results))))
                            else (g2, Inr update_result)))
         else if rename_requested properties instance_name
         then (g, Inl RenameNotAllowed)
         else (g, Inr (already_exists_result existing_node)))"

text \<open>
  The branch for a new instance: the node is created through \<open>MERGE\<close>; then, best
  effort, the \<open>IS_INSTANCE_OF\<close> relationship and the ObjectProperty relationships.  An
  exception of either step is caught and recorded in the result.
\<close>

definition success_count :: "result list \<Rightarrow> nat" where
  "success_count rs = length (filter (\<lambda>r. dict_get r ''success'' (RBool False) = RBool True) rs)"

definition created_by_successes :: "result list \<Rightarrow> nat" where
  "created_by_successes rs =
     sum_list (map (\<lambda>r. rnat (dict_get r ''relationships_created'' (RNat 0)))
                 (filter (\<lambda>r. dict_get r ''success'' (RBool False) = RBool True) rs))"

definition create_new ::
  "graph \<Rightarrow> string \<Rightarrow> instance_args \<Rightarrow> string option \<Rightarrow> graph \<times> result" where
  "create_new g now a concept_label =
     (let properties = arg_properties a;
          data_properties = data_properties_of g properties;
          object_properties = object_properties_of g properties;
          final_instance_name =
            (case requested_new_name properties of
               None \<Rightarrow> arg_instance_name a
             | Some s \<Rightarrow> if s = [] then arg_instance_name a else s);
          node_properties =
            add_common_properties now
              (dict_update [(''name'', VStr final_instance_name),
                            (''instance_of'', VStr (arg_concept_type a))] data_properties)
      in case create_node_with_merge g ''Instance'' final_instance_name node_properties
                (arg_additional_labels a) of
           (g1, result) \<Rightarrow>
             (case (if arg_auto_create_relationship a
                    then (case create_relationship g1
                                 (instance_pattern ''instance_name'')
                                 \<lparr> np_labels = [label_text concept_label],
                                   np_params = [(''name'', ''concept_name'')] \<rparr>
                                 ''IS_INSTANCE_OF''
                                 (Some [(''created_at'', VStr now)])
                                 (Some [(''instance_name'', VStr final_instance_name)])
                                 (Some [(''concept_name'', VStr (arg_concept_type a))]) of
                            (g2, Inr relationship_result) \<Rightarrow>
                              (g2, dict_set (dict_set result ''auto_relationship_created'' (RBool True))
                                     ''relationships_created''
                                     (dict_get relationship_result ''relationships_created'' (RNat 0)))
                          | (g2, Inl rel_error) \<Rightarrow>
                              (g2, dict_set (dict_set result ''auto_relationship_created'' (RBool False))
                                     ''relationship_error'' (RError rel_error)))
                    else (g1, dict_set result ''auto_relationship_created'' (RBool False))) of
                (g2, result2) \<Rightarrow>
                  (case (if arg_auto_create_object_property_relationships a \<and> object_properties \<noteq> []
                         then (case create_object_property_relationships g2 now final_instance_name
                                      object_properties of
                                 (g3, obj_rel_results) \<Rightarrow>
                                   (g3, dict_set
                                          (dict_set
                                            (dict_set
                                              (dict_set result2 ''object_property_relationships''
                                                 (RDicts obj_rel_results))
                                              ''object_properties_created'' (RNat (success_count obj_rel_results)))
                                            ''object_properties_failed''
                                            (RNat (length obj_rel_results - success_count obj_rel_results)))
                                          ''relationships_created''
                                          (RNat (rnat (dict_get result2 ''relationships_created'' (RNat 0))
                                                 + created_by_successes obj_rel_results))))
                         else (g2, dict_set (dict_set result2 ''object_properties_created'' (RNat 0))
                                     ''object_properties_failed'' (RNat 0))) of
                     (g3, result3) \<Rightarrow>
                       (g3, dict_set result3 ''total_operations''
                              (RNat (1 + (if dict_get result3 ''auto_relationship_created'' (RBool False)
                                             = RBool True then 1 else 0)
                                       + rnat (dict_get result3 ''object_properties_created'' (RNat 0))))))))"

text \<open>
  \<open>create_instance_node\<close>: the checks, then the lookup of the instance under label
  \<open>Instance\<close>, then one of the two branches.  The outer \<^verbatim>\<open>except\<close> wraps every
  exception as \<open>Failed to create instance node: ...\<close>.
\<close>

definition create_instance_node ::
  "string list \<Rightarrow> graph \<Rightarrow> string \<Rightarrow> instance_args \<Rightarrow> graph \<times> (error + result)" where
  "create_instance_node priority_labels g now a =
     (case (case pre_checks priority_labels g a of
              Inl e \<Rightarrow> (g, Inl e)
            | Inr concept_label \<Rightarrow>
                (case get_existing_node g (arg_instance_name a) (Some ''Instance'') of
                   Some existing_node \<Rightarrow> update_existing g now a concept_label existing_node
                 | None \<Rightarrow> (case create_new g now a concept_label of (g', result) \<Rightarrow> (g', Inr result)))) of
        (g', Inl e) \<Rightarrow> (g', Inl (Failed ''create instance node'' e))
      | (g', Inr result) \<Rightarrow> (g', Inr result))"

section \<open>InstanceLifecycleManager: deletion\<close>

text \<open>
  \<open>delete_instance_node\<close>: \<^verbatim>\<open>MATCH (n:Instance {name: $name}) DETACH DELETE n\<close>
  after an existence check.
\<close>

definition delete_instance_node :: "graph \<Rightarrow> string \<Rightarrow> bool \<Rightarrow> graph \<times> (error + result)" where
  "delete_instance_node g instance_name fail_if_not_found =
     (case get_existing_node g instance_name (Some ''Instance'') of
        None \<Rightarrow>
          if fail_if_not_found
          then (g, Inl (Failed ''delete instance node'' (InstanceNotFound instance_name)))
          else (g, Inr [(''records'', RRecords []), (''nodes_created'', RNat 0),
                        (''nodes_deleted'', RNat 0), (''relationships_created'', RNat 0),
                        (''relationships_deleted'', RNat 0), (''properties_set'', RNat 0),
                        (''labels_added'', RNat 0), (''labels_removed'', RNat 0),
                        (''status'', RStr ''not_found'')])
      | Some existing_node \<Rightarrow>
          (let g' = detach_delete g (map nid (match_name g (VStr instance_name) (Some ''Instance'')));
               deleted = length (nodes g) - length (nodes g');
               result = write_stats [] 0 deleted 0 (length (edges g) - length (edges g')) 0 0
           in (g', Inr (dict_set result ''status''
                          (RStr (if deleted > 0 then ''deleted'' else ''no_op''))))))"

text \<open>
  The patterns of \<open>delete_object_by_name\<close>:
  \<open>(o:Instance {name: $name, instance_of: 'Object'})\<close> and, for a matched \<open>o\<close>,
  \<open>(o)<-[:ISOBJECTFIELDOF]-(f:Instance {instance_of: 'ObjectField'})\<close>, one row per
  relationship.
\<close>

definition object_nodes :: "graph \<Rightarrow> string \<Rightarrow> node list" where
  "object_nodes g object_name =
     filter (\<lambda>obj. has_label obj ''Instance'' \<and> name_is obj (VStr object_name)
                    \<and> cy_eq (prop_get (nprops obj) ''instance_of'') (VStr ''Object'')) (nodes g)"

definition is_object_field :: "node \<Rightarrow> bool" where
  "is_object_field f =
     (has_label f ''Instance'' \<and> cy_eq (prop_get (nprops f) ''instance_of'') (VStr ''ObjectField''))"

definition field_rows :: "graph \<Rightarrow> node \<Rightarrow> node list" where
  "field_rows g obj =
     [f. r \<leftarrow> edges g, etype r = ''ISOBJECTFIELDOF'' \<and> edst r = nid obj,
         f \<leftarrow> nodes_at g (esrc r), is_object_field f]"

text \<open>
  \<open>delete_object_by_name\<close>: the existence check, the count query
  (\<open>count(DISTINCT f)\<close> counts node identities over all rows), and the one write
  \<^verbatim>\<open>DETACH DELETE f, o\<close>.  The exception for a missing Object is raised inside the
  \<^verbatim>\<open>try\<close> and so comes out wrapped.
\<close>

definition delete_object_by_name :: "graph \<Rightarrow> string \<Rightarrow> bool \<Rightarrow> graph \<times> (error + result)" where
  "delete_object_by_name g object_name fail_if_not_found =
     (let objects = object_nodes g object_name;
          fields = concat (map (field_rows g) objects)
      in if objects = []
         then if fail_if_not_found
              then (g, Inl (Failed ''delete Object by name'' (ObjectNotFound object_name)))
              else (g, Inr [(''name'', RStr object_name), (''objects_count'', RNat 0),
                            (''fields_count'', RNat 0), (''nodes_deleted'', RNat 0),
                            (''relationships_deleted'', RNat 0), (''status'', RStr ''not_found'')])
         else let fields_count = length (remdups (map nid fields));
                  g' = detach_delete g (map nid fields @ map nid objects)
              in (g', Inr [(''name'', RStr object_name), (''objects_count'', RNat 1),
                           (''fields_count'', RNat fields_count),
                           (''nodes_deleted'', RNat (length (nodes g) - length (nodes g'))),
                           (''relationships_deleted'', RNat (length (edges g) - length (edges g'))),
                           (''status'', RStr ''deleted'')]))"

section \<open>Example stores\<close>

text \<open>
  A small ontology: concept \<open>Table\<close>, a subclass of \<open>Asset\<close>; \<open>Table\<close> requires \<open>a\<close> and
  \<open>b\<close>, \<open>Asset\<close> requires \<open>c\<close> (with a default) and \<open>a\<close>; \<open>belongsTo\<close> is an
  ObjectProperty; \<open>db1\<close> is an instance.
\<close>

definition example_graph :: graph where
  "example_graph =
     \<lparr> nodes =
         [\<lparr> nid = 1, nlabels = [''Concept''], nprops = [(''name'', VStr ''Table'')] \<rparr>,
          \<lparr> nid = 2, nlabels = [''Concept''], nprops = [(''name'', VStr ''Asset'')] \<rparr>,
          \<lparr> nid = 3, nlabels = [''Property''],
            nprops = [(''name'', VStr ''a''), (''property_type'', VStr ''DataProperty'')] \<rparr>,
          \<lparr> nid = 4, nlabels = [''Property''],
            nprops = [(''name'', VStr ''b''), (''property_type'', VStr ''DataProperty'')] \<rparr>,
          \<lparr> nid = 5, nlabels = [''Property''],
            nprops = [(''name'', VStr ''c''), (''property_type'', VStr ''DataProperty'')] \<rparr>,
          \<lparr> nid = 6, nlabels = [''Property''],
            nprops = [(''name'', VStr ''belongsTo''), (''property_type'', VStr ''ObjectProperty'')] \<rparr>,
          \<lparr> nid = 7, nlabels = [''Instance''],
            nprops = [(''name'', VStr ''db1''), (''instance_of'', VStr ''Asset'')] \<rparr>],
       edges =
         [\<lparr> eid = 10, etype = ''SUBCLASS_OF'', esrc = 1, edst = 2, eprops = [] \<rparr>,
          \<lparr> eid = 11, etype = ''HAS_PROPERTY'', esrc = 1, edst = 3,
            eprops = [(''required'', VBool True)] \<rparr>,
          \<lparr> eid = 12, etype = ''HAS_PROPERTY'', esrc = 1, edst = 4,
            eprops = [(''required'', VBool True)] \<rparr>,
          \<lparr> eid = 13, etype = ''HAS_PROPERTY'', esrc = 2, edst = 5,
            eprops = [(''required'', VBool True), (''default_value'', VInt 3)] \<rparr>,
          \<lparr> eid = 14, etype = ''HAS_PROPERTY'', esrc = 2, edst = 3,
            eprops = [(''required'', VBool True)] \<rparr>],
       unique_name_labels = [''Concept'', ''Instance''] \<rparr>"

text \<open>A store whose only node is a Property with the empty name, typed ObjectProperty.\<close>

definition empty_name_graph :: graph where
  "empty_name_graph =
     \<lparr> nodes = [\<lparr> nid = 1, nlabels = [''Property''],
                  nprops = [(''name'', VStr []), (''property_type'', VStr ''ObjectProperty'')] \<rparr>],
       edges = [], unique_name_labels = [] \<rparr>"

text \<open>A store with one ObjectProperty node \<open>owner\<close>.\<close>

definition owner_graph :: graph where
  "owner_graph =
     \<lparr> nodes = [\<lparr> nid = 1, nlabels = [''Property''],
                  nprops = [(''name'', VStr ''owner''), (''property_type'', VStr ''ObjectProperty'')] \<rparr>],
       edges = [], unique_name_labels = [] \<rparr>"

text \<open>A store in which the name \<open>X\<close> is borne by a Concept and by an Instance.\<close>

definition twin_graph :: graph where
  "twin_graph =
     \<lparr> nodes = [\<lparr> nid = 1, nlabels = [''Concept''], nprops = [(''name'', VStr ''X'')] \<rparr>,
                 \<lparr> nid = 2, nlabels = [''Instance''], nprops = [(''name'', VStr ''X'')] \<rparr>],
       edges = [], unique_name_labels = [''Concept'', ''Instance''] \<rparr>"

text \<open>The example store after a \<open>RELATED_TO\<close> relationship from \<open>Table\<close> to \<open>Asset\<close> is created.\<close>

definition related_graph :: graph where
  "related_graph =
     example_graph\<lparr> edges := edges example_graph @
        [\<lparr> eid = 15, etype = ''RELATED_TO'', esrc = 1, edst = 2,
           eprops = [(''created_at'', VStr ''t0'')] \<rparr>] \<rparr>"

section \<open>Nodes linked to an Object\<close>

text \<open>
  The Instance nodes with \<open>instance_of = 'ObjectField'\<close> that have an
  \<open>ISOBJECTFIELDOF\<close> relationship to the given node.
\<close>

definition linked_fields :: "graph \<Rightarrow> node \<Rightarrow> node set" where
  "linked_fields g obj =
     {f \<in> set (nodes g). is_object_field f
        \<and> (\<exists>r \<in> set (edges g). etype r = ''ISOBJECTFIELDOF'' \<and> esrc r = nid f \<and> edst r = nid obj)}"

text \<open>
  A store with the Object \<open>orders\<close>, its three ObjectFields, and one more instance that
  one of the fields refers to.
\<close>

definition orders_node :: node where
  "orders_node = \<lparr> nid = 1, nlabels = [''Instance''],
                    nprops = [(''name'', VStr ''orders''), (''instance_of'', VStr ''Object'')] \<rparr>"

definition object_graph :: graph where
  "object_graph =
     \<lparr> nodes =
         [orders_node,
          \<lparr> nid = 2, nlabels = [''Instance''],
            nprops = [(''name'', VStr ''orders.id''), (''instance_of'', VStr ''ObjectField'')] \<rparr>,
          \<lparr> nid = 3, nlabels = [''Instance''],
            nprops = [(''name'', VStr ''orders.total''), (''instance_of'', VStr ''ObjectField'')] \<rparr>,
          \<lparr> nid = 4, nlabels = [''Instance''],
            nprops = [(''name'', VStr ''orders.customer''), (''instance_of'', VStr ''ObjectField'')] \<rparr>,
          \<lparr> nid = 5, nlabels = [''Instance''],
            nprops = [(''name'', VStr ''customers''), (''instance_of'', VStr ''Table'')] \<rparr>],
       edges =
         [\<lparr> eid = 6, etype = ''ISOBJECTFIELDOF'', esrc = 2, edst = 1, eprops = [] \<rparr>,
          \<lparr> eid = 7, etype = ''ISOBJECTFIELDOF'', esrc = 3, edst = 1, eprops = [] \<rparr>,
          \<lparr> eid = 8, etype = ''ISOBJECTFIELDOF'', esrc = 4, edst = 1, eprops = [] \<rparr>,
          \<lparr> eid = 9, etype = ''REFERS_TO'', esrc = 4, edst = 5, eprops = [] \<rparr>],
       unique_name_labels = [''Instance''] \<rparr>"

text \<open>The default of \<open>labels_to_constrain\<close> in the constructor of the service.\<close>

definition default_labels :: "string list" where
  "default_labels = [''Concept'', ''Instance'', ''Property'', ''Class'', ''Individual'']"

text \<open>The example store with the instance \<open>t1\<close> of \<open>Table\<close> in it.\<close>

definition t1_node :: node where
  "t1_node = \<lparr> nid = 15, nlabels = [''Instance''],
               nprops = [(''name'', VStr ''t1''), (''instance_of'', VStr ''Table''),
                         (''a'', VInt 1), (''b'', VInt 2), (''c'', VInt 3)] \<rparr>"

definition instance_graph :: graph where
  "instance_graph = example_graph\<lparr> nodes := nodes example_graph @ [t1_node] \<rparr>"

section \<open>Stores with well-typed Property names\<close>

text \<open>
  The data model gives every Property node a scalar \<open>name\<close>: no Property node stores a
  list under \<open>name\<close>.
\<close>

definition scalar_property_names :: "graph \<Rightarrow> bool" where
  "scalar_property_names g =
     (\<forall>p \<in> set (nodes g). has_label p ''Property'' \<longrightarrow> hashable (prop_get (nprops p) ''name''))"

text \<open>
  A store in which concept \<open>Table\<close> requires a Property whose \<open>name\<close> is a list.
\<close>

definition list_name_graph :: graph where
  "list_name_graph =
     \<lparr> nodes =
         [\<lparr> nid = 1, nlabels = [''Concept''], nprops = [(''name'', VStr ''Table'')] \<rparr>,
          \<lparr> nid = 2, nlabels = [''Property''],
            nprops = [(''name'', VList [''x'', ''y'']), (''property_type'', VStr ''DataProperty'')] \<rparr>],
       edges =
         [\<lparr> eid = 3, etype = ''HAS_PROPERTY'', esrc = 1, edst = 2,
            eprops = [(''required'', VBool True)] \<rparr>],
       unique_name_labels = [] \<rparr>"

section \<open>Store failure during classification\<close>

text \<open>
  C10.  If the store query of \<open>_identify_property_types\<close> raises, the function does not
  raise: it returns the mapping that sends every requested name to \<open>DataProperty\<close> and
  nothing else.  That is the very mapping it returns when the query succeeds and finds no
  Property node at all, so the caller cannot tell the two apart.
\<close>

theorem identify_property_types_swallows_store_failure:
  "fst (identify_property_types_of (Inl e) property_names) =
     (\<lambda>k. if k \<in> set property_names then Some (VStr ''DataProperty'') else None)
   \<and> fst (identify_property_types_of (Inl e) property_names) =
     fst (identify_property_types_of (Inr []) property_names)"
proof -
  have ms: "\<And>m w k. fst (default_missing property_names (m, w)) k =
      (if m k = None \<and> k \<in> set property_names then Some (VStr ''DataProperty'') else m k)"
    by (induction property_names) auto
  show ?thesis
    by (auto simp: identify_property_types_of_def ms fun_eq_iff)
qed

theorem identify_property_types_swallows_store_failure_witness:
  "fst (identify_property_types_of (Inl (StoreFailure ''connection refused'')) [''owner'', ''size''])
     ''owner'' = Some (VStr ''DataProperty'')
   \<and> fst (identify_property_types_of (Inr []) [''owner'', ''size'']) ''size''
     = Some (VStr ''DataProperty'')"
proof -
  note h = identify_property_types_swallows_store_failure
    [of "StoreFailure ''connection refused''" "[''owner'', ''size'']"]
  show ?thesis
    by (simp add: h [THEN conjunct2, symmetric] h [THEN conjunct1])
qed

section \<open>Property classification\<close>

lemma default_missing_fst:
  "fst (default_missing names (m, w)) k =
     (if m k = None \<and> k \<in> set names then Some (VStr ''DataProperty'') else m k)"
  by (induction names arbitrary: m w) auto

lemma default_missing_snd:
  "set (snd (default_missing names (m, w))) = set w \<union> {k \<in> set names. m k = None}"
  by (induction names arbitrary: m w) auto

lemma collect_types_other:
  "n = [] \<or> n \<notin> fst ` set rows \<Longrightarrow> collect_types rows m n = m n"
  by (induction rows arbitrary: m) auto

lemma collect_types_uniform:
  "n \<noteq> [] \<Longrightarrow> \<forall>(k, v) \<in> set rows. k = n \<longrightarrow> v = t \<Longrightarrow>
     collect_types rows m n = (if n \<in> fst ` set rows then Some t else m n)"
proof (induction rows arbitrary: m)
  case Nil
  then show ?case by simp
next
  case (Cons row rows)
  obtain k v where row: "row = (k, v)" by (cases row)
  from Cons.prems have rest: "\<forall>(k, v) \<in> set rows. k = n \<longrightarrow> v = t" by simp
  show ?case
  proof (cases "k = n")
    case True
    with Cons.prems row have "v = t" by simp
    with True row Cons.IH [OF Cons.prems(1) rest] Cons.prems(1) show ?thesis by simp
  next
    case False
    with row Cons.IH [OF Cons.prems(1) rest] show ?thesis by auto
  qed
qed

lemma collect_types_dom: "dom (collect_types rows m) \<subseteq> dom m \<union> fst ` set rows"
proof (induction rows arbitrary: m)
  case Nil
  then show ?case by simp
next
  case (Cons row rows)
  obtain k v where row: "row = (k, v)" by (cases row)
  show ?case using Cons.IH [of "if k \<noteq> [] then m(k \<mapsto> v) else m"] row
    by (auto split: if_splits)
qed

lemma default_missing_dom: "dom (fst (default_missing names (m, w))) = dom m \<union> set names"
  by (auto simp: dom_def default_missing_fst)

lemma type_row_of_node:
  "(s, t) \<in> set (case v of
                    VStr s' \<Rightarrow> (if lab \<and> s' \<in> set names then [(s', ty)] else [])
                  | _ \<Rightarrow> []) \<longleftrightarrow>
     (lab \<and> v = VStr s \<and> s \<in> set names \<and> t = ty)"
  by (cases v) auto

lemma property_type_rows_iff:
  "(s, t) \<in> set (property_type_rows g names) \<longleftrightarrow>
     (\<exists>p \<in> set (nodes g). has_label p ''Property'' \<and> prop_get (nprops p) ''name'' = VStr s
        \<and> s \<in> set names \<and> t = prop_get (nprops p) ''property_type'')"
  unfolding property_type_rows_def
  by (simp only: set_concat set_map UN_iff bex_simps image_iff type_row_of_node)

lemma property_type_rows_names: "fst ` set (property_type_rows g names) \<subseteq> set names"
proof
  fix s
  assume "s \<in> fst ` set (property_type_rows g names)"
  then obtain t where "(s, t) \<in> set (property_type_rows g names)"
    by force
  then show "s \<in> set names"
    unfolding property_type_rows_iff by blast
qed

lemma identify_nonempty:
  "names \<noteq> [] \<Longrightarrow>
     identify_property_types g names =
       default_missing names (collect_types (property_type_rows g names) Map.empty, [])"
  by (simp add: identify_property_types_def identify_property_types_of_def)

text \<open>
  C9, as the code has it.  The mapping returned by \<open>_identify_property_types\<close> has
  exactly the requested names as keys.  A requested name that is not empty and matches a
  Property node gets that node's \<open>property_type\<close> (all Property nodes of that name
  agreeing on it).  A requested name with no Property node, and also the empty name
  whatever the store holds, is mapped to \<open>DataProperty\<close> and a warning is logged for it.
\<close>

theorem identify_property_types_classifies:
  "dom (fst (identify_property_types g names)) = set names
   \<and> (\<forall>n \<in> set names. \<forall>p \<in> set (nodes g).
         n \<noteq> [] \<and> has_label p ''Property'' \<and> prop_get (nprops p) ''name'' = VStr n
         \<and> (\<forall>q \<in> set (nodes g). has_label q ''Property'' \<and> prop_get (nprops q) ''name'' = VStr n
               \<longrightarrow> prop_get (nprops q) ''property_type'' = prop_get (nprops p) ''property_type'')
         \<longrightarrow> fst (identify_property_types g names) n = Some (prop_get (nprops p) ''property_type''))
   \<and> (\<forall>n \<in> set names.
         n = [] \<or> \<not> (\<exists>p \<in> set (nodes g). has_label p ''Property'' \<and> prop_get (nprops p) ''name'' = VStr n)
         \<longrightarrow> fst (identify_property_types g names) n = Some (VStr ''DataProperty'')
             \<and> n \<in> set (snd (identify_property_types g names)))"
proof -
  let ?rows = "property_type_rows g names"
  have A: "dom (fst (identify_property_types g names)) = set names"
  proof (cases "names = []")
    case True
    then show ?thesis by (simp add: identify_property_types_def identify_property_types_of_def)
  next
    case False
    have "dom (collect_types ?rows Map.empty) \<subseteq> set names"
      using collect_types_dom [of ?rows Map.empty] property_type_rows_names [of g names] by auto
    then show ?thesis
      unfolding identify_nonempty [OF False] default_missing_dom by blast
  qed
  have B: "\<forall>n \<in> set names. \<forall>p \<in> set (nodes g).
         n \<noteq> [] \<and> has_label p ''Property'' \<and> prop_get (nprops p) ''name'' = VStr n
         \<and> (\<forall>q \<in> set (nodes g). has_label q ''Property'' \<and> prop_get (nprops q) ''name'' = VStr n
               \<longrightarrow> prop_get (nprops q) ''property_type'' = prop_get (nprops p) ''property_type'')
         \<longrightarrow> fst (identify_property_types g names) n = Some (prop_get (nprops p) ''property_type'')"
  proof (intro ballI impI)
    fix n p
    assume n: "n \<in> set names" and p: "p \<in> set (nodes g)"
      and h: "n \<noteq> [] \<and> has_label p ''Property'' \<and> prop_get (nprops p) ''name'' = VStr n
           \<and> (\<forall>q \<in> set (nodes g). has_label q ''Property'' \<and> prop_get (nprops q) ''name'' = VStr n
                 \<longrightarrow> prop_get (nprops q) ''property_type'' = prop_get (nprops p) ''property_type'')"
    let ?t = "prop_get (nprops p) ''property_type''"
    from n have ne: "names \<noteq> []" by auto
    have uni: "\<forall>(k, v) \<in> set ?rows. k = n \<longrightarrow> v = ?t"
    proof (clarify)
      fix v assume "(n, v) \<in> set ?rows"
      then obtain q where "q \<in> set (nodes g)" "has_label q ''Property''"
          "prop_get (nprops q) ''name'' = VStr n" "v = prop_get (nprops q) ''property_type''"
        unfolding property_type_rows_iff by blast
      with h show "v = ?t" by blast
    qed
    have "(n, ?t) \<in> set ?rows"
      unfolding property_type_rows_iff using n p h by blast
    then have mem: "n \<in> fst ` set ?rows" by force
    from h have nn: "n \<noteq> []" by blast
    have "collect_types ?rows Map.empty n = Some ?t"
      using collect_types_uniform [OF nn uni, of Map.empty] mem by simp
    then show "fst (identify_property_types g names) n = Some ?t"
      unfolding identify_nonempty [OF ne] default_missing_fst by simp
  qed
  have C: "\<forall>n \<in> set names.
         n = [] \<or> \<not> (\<exists>p \<in> set (nodes g). has_label p ''Property'' \<and> prop_get (nprops p) ''name'' = VStr n)
         \<longrightarrow> fst (identify_property_types g names) n = Some (VStr ''DataProperty'')
             \<and> n \<in> set (snd (identify_property_types g names))"
  proof (intro ballI impI)
    fix n
    assume n: "n \<in> set names"
      and h: "n = [] \<or> \<not> (\<exists>p \<in> set (nodes g). has_label p ''Property'' \<and> prop_get (nprops p) ''name'' = VStr n)"
    from n have ne: "names \<noteq> []" by auto
    have "n = [] \<or> n \<notin> fst ` set ?rows"
    proof (cases "n = []")
      case True
      then show ?thesis by simp
    next
      case False
      with h have no: "\<not> (\<exists>p \<in> set (nodes g). has_label p ''Property'' \<and> prop_get (nprops p) ''name'' = VStr n)"
        by blast
      have "n \<notin> fst ` set ?rows"
      proof
        assume "n \<in> fst ` set ?rows"
        then obtain t where "(n, t) \<in> set ?rows" by force
        then show False unfolding property_type_rows_iff using no by blast
      qed
      then show ?thesis by simp
    qed
    then have c: "collect_types ?rows Map.empty n = None"
      using collect_types_other [of n ?rows Map.empty] by simp
    have a: "fst (identify_property_types g names) n = Some (VStr ''DataProperty'')"
      unfolding identify_nonempty [OF ne] default_missing_fst using c n by simp
    have b: "n \<in> set (snd (identify_property_types g names))"
      unfolding identify_nonempty [OF ne] default_missing_snd using c n by simp
    from a b show "fst (identify_property_types g names) n = Some (VStr ''DataProperty'')
               \<and> n \<in> set (snd (identify_property_types g names))" by blast
  qed
  from A B C show ?thesis by blast
qed

theorem identify_property_types_classifies_witness:
  "dom (fst (identify_property_types owner_graph [''owner'', ''size''])) = {''owner'', ''size''}
   \<and> fst (identify_property_types owner_graph [''owner'', ''size'']) ''owner''
       = Some (VStr ''ObjectProperty'')
   \<and> fst (identify_property_types owner_graph [''owner'', ''size'']) ''size''
       = Some (VStr ''DataProperty'')
   \<and> ''size'' \<in> set (snd (identify_property_types owner_graph [''owner'', ''size'']))"
proof -
  note T = identify_property_types_classifies [of owner_graph "[''owner'', ''size'']"]
  let ?p = "\<lparr> nid = 1, nlabels = [''Property''],
              nprops = [(''name'', VStr ''owner''), (''property_type'', VStr ''ObjectProperty'')] \<rparr>"
  have A: "dom (fst (identify_property_types owner_graph [''owner'', ''size''])) = {''owner'', ''size''}"
    using T [THEN conjunct1] by auto
  have B: "fst (identify_property_types owner_graph [''owner'', ''size'']) ''owner''
       = Some (prop_get (nprops ?p) ''property_type'')"
    using T [THEN conjunct2, THEN conjunct1, rule_format, of "''owner''" ?p]
    by (simp add: owner_graph_def has_label_def prop_get_def)
  have C: "fst (identify_property_types owner_graph [''owner'', ''size'']) ''size''
       = Some (VStr ''DataProperty'')
     \<and> ''size'' \<in> set (snd (identify_property_types owner_graph [''owner'', ''size'']))"
    using T [THEN conjunct2, THEN conjunct2, rule_format, of "''size''"]
    by (simp add: owner_graph_def has_label_def prop_get_def)
  from A B C show ?thesis by (simp add: prop_get_def)
qed

text \<open>
  C9 as stated fails for the empty name: the store holds a Property node named \<open>''\<close>
  of type ObjectProperty, the name is requested, and the mapping says \<open>DataProperty\<close>.
\<close>

theorem identify_property_types_empty_name_counterexample:
  "has_label (hd (nodes empty_name_graph)) ''Property''
   \<and> prop_get (nprops (hd (nodes empty_name_graph))) ''name'' = VStr []
   \<and> prop_get (nprops (hd (nodes empty_name_graph))) ''property_type'' = VStr ''ObjectProperty''
   \<and> fst (identify_property_types empty_name_graph [[]]) [] = Some (VStr ''DataProperty'')"
  by (simp add: empty_name_graph_def has_label_def prop_get_def identify_property_types_def
      identify_property_types_of_def property_type_rows_def)

section \<open>Label detection\<close>

lemma find_first_priority:
  "pl = before @ l # after \<Longrightarrow> P l \<Longrightarrow> \<forall>x \<in> set before. \<not> P x \<Longrightarrow> find P pl = Some l"
  by (induction before arbitrary: pl) auto

lemma auto_detect_by_length:
  "auto_detect_domain_label pl g name =
     (let ns = find_nodes_by_name g name
      in if ns = [] then Inl (DomainDoesNotExist name)
         else if length ns = 1 then Inr (primary_label pl (nlabels (hd ns)))
         else Inl (MultipleNodesFound name (map nlabels ns)))"
  by (simp add: auto_detect_domain_label_def Let_def split: list.splits)

text \<open>
  C8.  \<open>auto_detect_domain_label\<close> is a trichotomy over the nodes that bear the name,
  whatever their labels.  No node: the not-found error.  Exactly one node: its primary
  label, which is the first label of the configured priority list that the node carries
  (no earlier one being carried).  More than one node: the conflict error, which lists
  the labels of all of them.
\<close>

theorem auto_detect_domain_label_trichotomy:
  "(match_name g (VStr name) None = []
      \<longrightarrow> auto_detect_domain_label pl g name = Inl (DomainDoesNotExist name))
   \<and> (\<forall>n. match_name g (VStr name) None = [n]
      \<longrightarrow> auto_detect_domain_label pl g name = Inr (primary_label pl (nlabels n))
        \<and> (\<forall>before l after.
              pl = before @ l # after \<and> l \<noteq> [] \<and> l \<in> set (nlabels n)
              \<and> (\<forall>x \<in> set before. x \<notin> set (nlabels n))
              \<longrightarrow> auto_detect_domain_label pl g name = Inr l))
   \<and> (1 < length (match_name g (VStr name) None)
      \<longrightarrow> (\<exists>ns. auto_detect_domain_label pl g name = Inl (MultipleNodesFound name (map nlabels ns))
               \<and> set ns = set (match_name g (VStr name) None)
               \<and> length ns = length (match_name g (VStr name) None)))"
proof -
  let ?ms = "match_name g (VStr name) None"
  have A: "?ms = [] \<longrightarrow> auto_detect_domain_label pl g name = Inl (DomainDoesNotExist name)"
    by (simp add: auto_detect_by_length find_nodes_by_name_def)
  have B: "\<forall>n. ?ms = [n]
      \<longrightarrow> auto_detect_domain_label pl g name = Inr (primary_label pl (nlabels n))
        \<and> (\<forall>before l after.
              pl = before @ l # after \<and> l \<noteq> [] \<and> l \<in> set (nlabels n)
              \<and> (\<forall>x \<in> set before. x \<notin> set (nlabels n))
              \<longrightarrow> auto_detect_domain_label pl g name = Inr l)"
  proof (intro allI impI)
    fix n assume ms: "?ms = [n]"
    then have r: "auto_detect_domain_label pl g name = Inr (primary_label pl (nlabels n))"
      by (simp add: auto_detect_by_length find_nodes_by_name_def)
    have "\<forall>before l after.
              pl = before @ l # after \<and> l \<noteq> [] \<and> l \<in> set (nlabels n)
              \<and> (\<forall>x \<in> set before. x \<notin> set (nlabels n))
              \<longrightarrow> primary_label pl (nlabels n) = l"
    proof (intro allI impI)
      fix before l after
      assume h: "pl = before @ l # after \<and> l \<noteq> [] \<and> l \<in> set (nlabels n)
              \<and> (\<forall>x \<in> set before. x \<notin> set (nlabels n))"
      then have "find (\<lambda>priority_label. priority_label \<in> set (nlabels n)) pl = Some l"
        using find_first_priority [of pl before l after "\<lambda>x. x \<in> set (nlabels n)"] by blast
      with h show "primary_label pl (nlabels n) = l"
        by (simp add: primary_label_def)
    qed
    with r show "auto_detect_domain_label pl g name = Inr (primary_label pl (nlabels n))
        \<and> (\<forall>before l after.
              pl = before @ l # after \<and> l \<noteq> [] \<and> l \<in> set (nlabels n)
              \<and> (\<forall>x \<in> set before. x \<notin> set (nlabels n))
              \<longrightarrow> auto_detect_domain_label pl g name = Inr l)"
      by metis
  qed
  have C: "1 < length ?ms
      \<longrightarrow> (\<exists>ns. auto_detect_domain_label pl g name = Inl (MultipleNodesFound name (map nlabels ns))
               \<and> set ns = set ?ms \<and> length ns = length ?ms)"
  proof
    assume l: "1 < length ?ms"
    have len: "length (find_nodes_by_name g name) = length ?ms"
      by (simp add: find_nodes_by_name_def)
    with l have "length (find_nodes_by_name g name) \<noteq> 1" "find_nodes_by_name g name \<noteq> []"
      by auto
    then have "auto_detect_domain_label pl g name
        = Inl (MultipleNodesFound name (map nlabels (find_nodes_by_name g name)))"
      by (simp add: auto_detect_by_length)
    moreover have "set (find_nodes_by_name g name) = set ?ms"
      "length (find_nodes_by_name g name) = length ?ms"
      by (simp_all add: find_nodes_by_name_def)
    ultimately show "\<exists>ns. auto_detect_domain_label pl g name = Inl (MultipleNodesFound name (map nlabels ns))
               \<and> set ns = set ?ms \<and> length ns = length ?ms"
      by blast
  qed
  from A B C show ?thesis by blast
qed

theorem auto_detect_domain_label_trichotomy_witness:
  "auto_detect_domain_label [''Class'', ''Concept'', ''Instance''] example_graph ''Table'' = Inr ''Concept''
   \<and> auto_detect_domain_label [''Class'', ''Concept'', ''Instance''] example_graph ''Ghost''
       = Inl (DomainDoesNotExist ''Ghost'')
   \<and> (\<exists>ns :: node list. auto_detect_domain_label [''Class'', ''Concept'', ''Instance''] twin_graph ''X''
               = Inl (MultipleNodesFound ''X'' (map nlabels ns))
             \<and> length ns = 2)"
proof -
  note T = auto_detect_domain_label_trichotomy
  have two: "1 < length (match_name twin_graph (VStr ''X'') None)"
    by (simp add: match_name_def label_ok_def name_is_def cy_eq_def prop_get_def twin_graph_def)
  have len: "length (match_name twin_graph (VStr ''X'') None) = 2"
    by (simp add: match_name_def label_ok_def name_is_def cy_eq_def prop_get_def twin_graph_def)
  have C: "\<exists>ns :: node list. auto_detect_domain_label [''Class'', ''Concept'', ''Instance''] twin_graph ''X''
               = Inl (MultipleNodesFound ''X'' (map nlabels ns))
             \<and> length ns = 2"
  proof -
    from T [of twin_graph "''X''" "[''Class'', ''Concept'', ''Instance'']",
        THEN conjunct2, THEN conjunct2, rule_format, OF two]
    obtain ns where
      r: "auto_detect_domain_label [''Class'', ''Concept'', ''Instance''] twin_graph ''X''
               = Inl (MultipleNodesFound ''X'' (map nlabels ns))"
      and s: "set ns = set (match_name twin_graph (VStr ''X'') None)"
      and l: "length ns = length (match_name twin_graph (VStr ''X'') None)"
      by (elim exE conjE)
    from l len have l2: "length ns = 2" by simp
    show ?thesis by (rule exI [of _ ns]) (simp add: r l2)
  qed
  let ?n = "\<lparr> nid = 1, nlabels = [''Concept''], nprops = [(''name'', VStr ''Table'')] \<rparr>"
  have m: "match_name example_graph (VStr ''Table'') None = [?n]"
    by (simp add: match_name_def label_ok_def name_is_def cy_eq_def prop_get_def example_graph_def)
  have A: "auto_detect_domain_label [''Class'', ''Concept'', ''Instance''] example_graph ''Table''
      = Inr ''Concept''"
    using T [of example_graph "''Table''" "[''Class'', ''Concept'', ''Instance'']",
        THEN conjunct2, THEN conjunct1, rule_format, OF m, THEN conjunct2, rule_format,
        of "[''Class'']" "''Concept''" "[''Instance'']"]
    by simp
  have e: "match_name example_graph (VStr ''Ghost'') None = []"
    by (simp add: match_name_def label_ok_def name_is_def cy_eq_def prop_get_def example_graph_def)
  have B: "auto_detect_domain_label [''Class'', ''Concept'', ''Instance''] example_graph ''Ghost''
      = Inl (DomainDoesNotExist ''Ghost'')"
    using T [of example_graph "''Ghost''" "[''Class'', ''Concept'', ''Instance'']",
        THEN conjunct1, rule_format, OF e] .
  from A B C show ?thesis by blast
qed

section \<open>Renaming\<close>

lemma name_is_str: "name_is n (VStr s) \<longleftrightarrow> prop_get (nprops n) ''name'' = VStr s"
  by (auto simp: name_is_def cy_eq_def)

lemma match_name_labelled:
  "label \<noteq> [] \<Longrightarrow>
     set (match_name g (VStr s) (Some label))
       = {n \<in> set (nodes g). has_label n label \<and> prop_get (nprops n) ''name'' = VStr s}"
  by (auto simp: match_name_def label_ok_def name_is_str)

lemma get_existing_node_None_iff:
  "label \<noteq> [] \<Longrightarrow>
     get_existing_node g s (Some label) = None \<longleftrightarrow>
       (\<forall>n \<in> set (nodes g). \<not> (has_label n label \<and> prop_get (nprops n) ''name'' = VStr s))"
proof -
  assume l: "label \<noteq> []"
  have "get_existing_node g s (Some label) = None \<longleftrightarrow> match_name g (VStr s) (Some label) = []"
    by (simp add: get_existing_node_def split: list.splits)
  also have "\<dots> \<longleftrightarrow> set (match_name g (VStr s) (Some label)) = {}"
    by simp
  also have "\<dots> \<longleftrightarrow> (\<forall>n \<in> set (nodes g). \<not> (has_label n label \<and> prop_get (nprops n) ''name'' = VStr s))"
    unfolding match_name_labelled [OF l] by blast
  finally show ?thesis .
qed

lemma check_name_exists_iff:
  "label \<noteq> [] \<Longrightarrow>
     check_name_exists g (VStr s) (Some label) \<longleftrightarrow>
       (\<exists>n \<in> set (nodes g). has_label n label \<and> prop_get (nprops n) ''name'' = VStr s)"
proof -
  assume l: "label \<noteq> []"
  have "check_name_exists g (VStr s) (Some label) \<longleftrightarrow> set (match_name g (VStr s) (Some label)) \<noteq> {}"
    by (simp add: check_name_exists_def)
  also have "\<dots> \<longleftrightarrow> (\<exists>n \<in> set (nodes g). has_label n label \<and> prop_get (nprops n) ''name'' = VStr s)"
    unfolding match_name_labelled [OF l] by blast
  finally show ?thesis .
qed

lemma rename_node_source_missing:
  "old_name \<noteq> new_name \<Longrightarrow> get_existing_node g old_name (Some label) = None \<Longrightarrow>
     rename_node g now old_name label new_name = (g, Inl (RenameSourceNotFound old_name label))"
  by (simp add: rename_node_def)

lemma rename_node_target_taken:
  "old_name \<noteq> new_name \<Longrightarrow> get_existing_node g old_name (Some label) = Some n \<Longrightarrow>
   check_name_exists g (VStr new_name) (Some label) \<Longrightarrow>
     rename_node g now old_name label new_name = (g, Inl (RenameTargetExists new_name label))"
  by (simp add: rename_node_def)

lemma rename_node_error_no_write:
  "snd (rename_node g now old_name label new_name) = Inl e \<Longrightarrow>
     fst (rename_node g now old_name label new_name) = g"
  by (auto simp: rename_node_def Let_def split: option.splits if_splits)

lemma rename_node_same_name:
  "rename_node g now name label name
     = (g, Inr [(''records'', RRecords []), (''nodes_created'', RNat 0),
                (''nodes_updated'', RNat 0), (''properties_set'', RNat 0),
                (''status'', RStr ''no_op'')])"
  by (simp add: rename_node_def)

text \<open>
  C7.  A rename request gives a new name different from the old one, under a label.
  When some node of the store carries the label and the new name, \<open>_rename_node\<close>
  raises and the store is as it was; the error is the collision error whenever a node
  with the old name exists under the label.  When no node carries the label and the old
  name, it raises the not-found error.  Whenever it raises, nodes and relationships are
  unchanged, so the node that was to be renamed keeps its name and its properties.
\<close>

theorem rename_node_refuses_collision:
  assumes differ: "old_name \<noteq> new_name"
    and labelled: "label \<noteq> []"
  shows "((\<exists>m \<in> set (nodes g). has_label m label \<and> prop_get (nprops m) ''name'' = VStr new_name)
          \<longrightarrow> (\<exists>e. rename_node g now old_name label new_name = (g, Inl e)))
     \<and> ((\<exists>n \<in> set (nodes g). has_label n label \<and> prop_get (nprops n) ''name'' = VStr old_name)
          \<and> (\<exists>m \<in> set (nodes g). has_label m label \<and> prop_get (nprops m) ''name'' = VStr new_name)
          \<longrightarrow> rename_node g now old_name label new_name = (g, Inl (RenameTargetExists new_name label)))
     \<and> ((\<forall>n \<in> set (nodes g). \<not> (has_label n label \<and> prop_get (nprops n) ''name'' = VStr old_name))
          \<longrightarrow> rename_node g now old_name label new_name = (g, Inl (RenameSourceNotFound old_name label)))
     \<and> (\<forall>e. snd (rename_node g now old_name label new_name) = Inl e
          \<longrightarrow> nodes (fst (rename_node g now old_name label new_name)) = nodes g
              \<and> edges (fst (rename_node g now old_name label new_name)) = edges g)"
proof -
  let ?src = "\<exists>n \<in> set (nodes g). has_label n label \<and> prop_get (nprops n) ''name'' = VStr old_name"
  let ?tgt = "\<exists>m \<in> set (nodes g). has_label m label \<and> prop_get (nprops m) ''name'' = VStr new_name"
  have missing: "\<not> ?src \<Longrightarrow> rename_node g now old_name label new_name
      = (g, Inl (RenameSourceNotFound old_name label))"
  proof -
    assume "\<not> ?src"
    then have "get_existing_node g old_name (Some label) = None"
      unfolding get_existing_node_None_iff [OF labelled] by blast
    with differ show ?thesis by (rule rename_node_source_missing)
  qed
  have taken: "?src \<Longrightarrow> ?tgt \<Longrightarrow> rename_node g now old_name label new_name
      = (g, Inl (RenameTargetExists new_name label))"
  proof -
    assume s: ?src and t: ?tgt
    from s have "get_existing_node g old_name (Some label) \<noteq> None"
      unfolding get_existing_node_None_iff [OF labelled] by blast
    then obtain n where n: "get_existing_node g old_name (Some label) = Some n" by blast
    from t have "check_name_exists g (VStr new_name) (Some label)"
      unfolding check_name_exists_iff [OF labelled] .
    with differ n show ?thesis by (rule rename_node_target_taken)
  qed
  have A: "?tgt \<longrightarrow> (\<exists>e. rename_node g now old_name label new_name = (g, Inl e))"
  proof
    assume t: ?tgt
    show "\<exists>e. rename_node g now old_name label new_name = (g, Inl e)"
    proof (cases ?src)
      case True
      from taken [OF True t] show ?thesis by blast
    next
      case False
      from missing [OF False] show ?thesis by blast
    qed
  qed
  have B: "?src \<and> ?tgt \<longrightarrow> rename_node g now old_name label new_name
      = (g, Inl (RenameTargetExists new_name label))"
    using taken by blast
  have C: "(\<forall>n \<in> set (nodes g). \<not> (has_label n label \<and> prop_get (nprops n) ''name'' = VStr old_name))
          \<longrightarrow> rename_node g now old_name label new_name = (g, Inl (RenameSourceNotFound old_name label))"
    using missing by blast
  have D: "\<forall>e. snd (rename_node g now old_name label new_name) = Inl e
          \<longrightarrow> nodes (fst (rename_node g now old_name label new_name)) = nodes g
              \<and> edges (fst (rename_node g now old_name label new_name)) = edges g"
    using rename_node_error_no_write [of g now old_name label new_name] by simp
  from A B C D show ?thesis by (intro conjI)
qed

theorem rename_node_refuses_collision_witness:
  "rename_node example_graph ''t0'' ''Table'' ''Concept'' ''Asset''
     = (example_graph, Inl (RenameTargetExists ''Asset'' ''Concept''))
   \<and> rename_node example_graph ''t0'' ''Ghost'' ''Concept'' ''Asset''
     = (example_graph, Inl (RenameSourceNotFound ''Ghost'' ''Concept''))"
proof -
  have ne: "''Table'' \<noteq> ''Asset''" "''Ghost'' \<noteq> ''Asset''" and l: "''Concept'' \<noteq> []" by simp_all
  note T1 = rename_node_refuses_collision [OF ne(1) l, of example_graph "''t0''"]
  note T2 = rename_node_refuses_collision [OF ne(2) l, of example_graph "''t0''"]
  have a: "(\<exists>n \<in> set (nodes example_graph). has_label n ''Concept'' \<and> prop_get (nprops n) ''name'' = VStr ''Table'')
          \<and> (\<exists>m \<in> set (nodes example_graph). has_label m ''Concept'' \<and> prop_get (nprops m) ''name'' = VStr ''Asset'')"
    by (simp add: has_label_def prop_get_def example_graph_def)
  have b: "\<forall>n \<in> set (nodes example_graph). \<not> (has_label n ''Concept'' \<and> prop_get (nprops n) ''name'' = VStr ''Ghost'')"
    by (simp add: has_label_def prop_get_def example_graph_def)
  from T1 [THEN conjunct2, THEN conjunct1, THEN mp, OF a]
       T2 [THEN conjunct2, THEN conjunct2, THEN conjunct1, THEN mp, OF b]
  show ?thesis by (rule conjI)
qed

section \<open>Required properties\<close>

lemma py_eq_sym: "py_eq a b \<Longrightarrow> py_eq b a"
  by (cases a; cases b) auto

lemma py_eq_trans: "py_eq a b \<Longrightarrow> py_eq b c \<Longrightarrow> py_eq a c"
  by (cases a; cases b; cases c) (auto split: if_splits)

lemma direct_required_rows_iff:
  "row \<in> set (direct_required_rows g concept_label concept_name) \<longleftrightarrow>
     (\<exists>c \<in> set (nodes g). \<exists>r \<in> set (edges g). \<exists>p \<in> set (nodes g).
        has_label c concept_label \<and> name_is c (VStr concept_name)
        \<and> etype r = ''HAS_PROPERTY'' \<and> esrc r = nid c
        \<and> cy_eq (prop_get (eprops r) ''required'') (VBool True)
        \<and> nid p = edst r \<and> has_label p ''Property''
        \<and> row = mk_row p r ''direct'' (VStr concept_name))"
  by (auto simp: direct_required_rows_def concept_nodes_def required_edges_from_def
      property_nodes_at_def nodes_at_def)

lemma direct_rows_tag:
  "row \<in> set (direct_required_rows g concept_label concept_name) \<Longrightarrow>
     rq_inheritance_type row = ''direct'' \<and> rq_source_concept row = VStr concept_name"
  unfolding direct_required_rows_iff by (auto simp: mk_row_def)

lemma inherited_rows_tag:
  "row \<in> set (inherited_required_rows g concept_label concept_name) \<Longrightarrow>
     rq_inheritance_type row = ''inherited''"
  by (auto simp: inherited_required_rows_def mk_row_def)

lemma direct_rows_property:
  "row \<in> set (direct_required_rows g concept_label concept_name) \<Longrightarrow>
     \<exists>p \<in> set (nodes g). has_label p ''Property''
        \<and> rq_property_name row = prop_get (nprops p) ''name''"
  unfolding direct_required_rows_iff by (auto simp: mk_row_def)

lemma inherited_rows_property:
  "row \<in> set (inherited_required_rows g concept_label concept_name) \<Longrightarrow>
     \<exists>p \<in> set (nodes g). has_label p ''Property''
        \<and> rq_property_name row = prop_get (nprops p) ''name''"
  by (auto simp: inherited_required_rows_def mk_row_def property_nodes_at_def nodes_at_def)

lemma scalar_rows:
  assumes "scalar_property_names g"
  shows "list_all (\<lambda>row. hashable (rq_property_name row)) (direct_required_rows g concept_label concept_name)"
    and "list_all (\<lambda>row. hashable (rq_property_name row)) (inherited_required_rows g concept_label concept_name)"
proof -
  have h: "\<And>p. p \<in> set (nodes g) \<Longrightarrow> has_label p ''Property'' \<Longrightarrow> hashable (prop_get (nprops p) ''name'')"
    using assms unfolding scalar_property_names_def by blast
  show "list_all (\<lambda>row. hashable (rq_property_name row)) (direct_required_rows g concept_label concept_name)"
    unfolding list_all_iff
  proof
    fix row assume "row \<in> set (direct_required_rows g concept_label concept_name)"
    from direct_rows_property [OF this] h show "hashable (rq_property_name row)" by auto
  qed
  show "list_all (\<lambda>row. hashable (rq_property_name row)) (inherited_required_rows g concept_label concept_name)"
    unfolding list_all_iff
  proof
    fix row assume "row \<in> set (inherited_required_rows g concept_label concept_name)"
    from inherited_rows_property [OF this] h show "hashable (rq_property_name row)" by auto
  qed
qed

lemma get_required_scalar:
  assumes "scalar_property_names g"
  shows "get_required_properties_for_concept g concept_name concept_label include_inherited =
     Inr (direct_required_rows g concept_label concept_name @
          (if include_inherited
           then filter (\<lambda>inherited_prop.
                   \<not> list_ex (\<lambda>prop. py_eq (rq_property_name prop) (rq_property_name inherited_prop))
                        (direct_required_rows g concept_label concept_name))
                  (inherited_required_rows g concept_label concept_name)
           else []))"
  using scalar_rows [OF assms, of concept_label concept_name]
  by (simp add: get_required_properties_for_concept_def Let_def)

lemma get_required_raises:
  assumes "include_inherited"
    and "row \<in> set (direct_required_rows g concept_label concept_name)
           \<union> set (inherited_required_rows g concept_label concept_name)"
    and "\<not> hashable (rq_property_name row)"
  shows "get_required_properties_for_concept g concept_name concept_label include_inherited =
     Inl (Failed ''get required properties'' unhashable_list)"
  using assms
  by (auto simp: get_required_properties_for_concept_def Let_def list_all_iff)

lemma get_required_raises_example:
  "get_required_properties_for_concept list_name_graph ''Table'' ''Concept'' True =
     Inl (Failed ''get required properties'' unhashable_list)"
  by code_simp

lemma required_rows_tagged:
  "get_required_properties_for_concept g concept_name concept_label include_inherited = Inr rows \<Longrightarrow>
   row \<in> set rows \<Longrightarrow>
     (rq_inheritance_type row = ''direct'' \<and> rq_source_concept row = VStr concept_name)
     \<or> rq_inheritance_type row = ''inherited''"
  using direct_rows_tag [of row g concept_label concept_name]
    inherited_rows_tag [of row g concept_label concept_name]
  by (auto simp: get_required_properties_for_concept_def Let_def split: if_splits)

text \<open>
  C2.  In a store whose Property names are scalars (the data model's names; a name that
  is a list makes the function raise, see \<open>get_required_raises\<close>),
  \<open>get_required_properties_for_concept\<close> with \<open>include_inherited\<close> returns rows such
  that: there is a row tagged \<open>direct\<close> with the concept as source for every required
  \<open>HAS_PROPERTY\<close> relationship from the concept to a Property node; every row tagged
  \<open>direct\<close> has the concept as source; no row tagged \<open>inherited\<close> has the name of a row
  tagged \<open>direct\<close>, whatever the ancestor it comes from; and a name \<open>x\<close> that the direct
  query reports once appears exactly once in the result, as that direct row, whatever the
  ancestors declare.
\<close>

theorem required_properties_direct_wins:
  assumes scalar: "scalar_property_names g"
  shows "\<exists>rows. get_required_properties_for_concept g concept_name concept_label True = Inr rows
   \<and> (\<forall>c \<in> set (nodes g). \<forall>r \<in> set (edges g). \<forall>p \<in> set (nodes g).
      has_label c concept_label \<and> name_is c (VStr concept_name)
      \<and> etype r = ''HAS_PROPERTY'' \<and> esrc r = nid c
      \<and> cy_eq (prop_get (eprops r) ''required'') (VBool True)
      \<and> nid p = edst r \<and> has_label p ''Property''
      \<longrightarrow> mk_row p r ''direct'' (VStr concept_name) \<in> set rows)
   \<and> (\<forall>row \<in> set rows.
        rq_inheritance_type row = ''direct'' \<longrightarrow> rq_source_concept row = VStr concept_name)
   \<and> (\<forall>row \<in> set rows. \<forall>d \<in> set rows.
        rq_inheritance_type row = ''inherited'' \<and> rq_inheritance_type d = ''direct''
        \<longrightarrow> \<not> py_eq (rq_property_name d) (rq_property_name row))
   \<and> (\<forall>d. filter (\<lambda>row. py_eq (rq_property_name row) x)
              (direct_required_rows g concept_label concept_name) = [d]
        \<longrightarrow> filter (\<lambda>row. py_eq (rq_property_name row) x) rows = [d]
            \<and> rq_inheritance_type d = ''direct'' \<and> rq_source_concept d = VStr concept_name)"
proof -
  let ?D = "direct_required_rows g concept_label concept_name"
  let ?I = "inherited_required_rows g concept_label concept_name"
  let ?F = "filter (\<lambda>inherited_prop.
                   \<not> list_ex (\<lambda>prop. py_eq (rq_property_name prop) (rq_property_name inherited_prop)) ?D) ?I"
  let ?R = "?D @ ?F"
  have run: "get_required_properties_for_concept g concept_name concept_label True = Inr ?R"
    using get_required_scalar [OF scalar, of concept_name concept_label True] by simp
  have setR: "set ?R = set ?D \<union> {row \<in> set ?I. \<forall>d \<in> set ?D.
            \<not> py_eq (rq_property_name d) (rq_property_name row)}"
    by (auto simp: list_ex_iff)
  have A: "\<forall>c \<in> set (nodes g). \<forall>r \<in> set (edges g). \<forall>p \<in> set (nodes g).
      has_label c concept_label \<and> name_is c (VStr concept_name)
      \<and> etype r = ''HAS_PROPERTY'' \<and> esrc r = nid c
      \<and> cy_eq (prop_get (eprops r) ''required'') (VBool True)
      \<and> nid p = edst r \<and> has_label p ''Property''
      \<longrightarrow> mk_row p r ''direct'' (VStr concept_name) \<in> set ?R"
  proof (intro ballI impI)
    fix c r p
    assume "c \<in> set (nodes g)" "r \<in> set (edges g)" "p \<in> set (nodes g)"
      "has_label c concept_label \<and> name_is c (VStr concept_name)
      \<and> etype r = ''HAS_PROPERTY'' \<and> esrc r = nid c
      \<and> cy_eq (prop_get (eprops r) ''required'') (VBool True)
      \<and> nid p = edst r \<and> has_label p ''Property''"
    then have "mk_row p r ''direct'' (VStr concept_name) \<in> set ?D"
      unfolding direct_required_rows_iff by blast
    then show "mk_row p r ''direct'' (VStr concept_name) \<in> set ?R"
      unfolding setR by simp
  qed
  have B: "\<forall>row \<in> set ?R. rq_inheritance_type row = ''direct'' \<longrightarrow> rq_source_concept row = VStr concept_name"
    using required_rows_tagged [OF run] by fastforce
  have C: "\<forall>row \<in> set ?R. \<forall>d \<in> set ?R.
        rq_inheritance_type row = ''inherited'' \<and> rq_inheritance_type d = ''direct''
        \<longrightarrow> \<not> py_eq (rq_property_name d) (rq_property_name row)"
  proof (intro ballI impI)
    fix row d
    assume row: "row \<in> set ?R" and d: "d \<in> set ?R"
      and h: "rq_inheritance_type row = ''inherited'' \<and> rq_inheritance_type d = ''direct''"
    from d h have dD: "d \<in> set ?D"
      unfolding setR using inherited_rows_tag [of d g concept_label concept_name] by auto
    from row h have "\<forall>d \<in> set ?D. \<not> py_eq (rq_property_name d) (rq_property_name row)"
      unfolding setR using direct_rows_tag [of row g concept_label concept_name] by auto
    with dD show "\<not> py_eq (rq_property_name d) (rq_property_name row)" by blast
  qed
  have D: "\<forall>d. filter (\<lambda>row. py_eq (rq_property_name row) x) ?D = [d]
        \<longrightarrow> filter (\<lambda>row. py_eq (rq_property_name row) x) ?R = [d]
            \<and> rq_inheritance_type d = ''direct'' \<and> rq_source_concept d = VStr concept_name"
  proof (intro allI impI)
    fix d
    assume f: "filter (\<lambda>row. py_eq (rq_property_name row) x) ?D = [d]"
    then have "d \<in> set (filter (\<lambda>row. py_eq (rq_property_name row) x) ?D)" by simp
    then have dD: "d \<in> set ?D" and dx: "py_eq (rq_property_name d) x" by simp_all
    have none: "filter (\<lambda>row. py_eq (rq_property_name row) x) ?F = []"
    proof -
      have "\<And>i. i \<in> set ?I \<Longrightarrow> py_eq (rq_property_name i) x \<Longrightarrow>
          list_ex (\<lambda>prop. py_eq (rq_property_name prop) (rq_property_name i)) ?D"
      proof -
        fix i assume "i \<in> set ?I" and ix: "py_eq (rq_property_name i) x"
        from dx py_eq_sym [OF ix] have "py_eq (rq_property_name d) (rq_property_name i)"
          by (rule py_eq_trans)
        with dD show "list_ex (\<lambda>prop. py_eq (rq_property_name prop) (rq_property_name i)) ?D"
          unfolding list_ex_iff by blast
      qed
      then show ?thesis
        unfolding filter_empty_conv by auto
    qed
    have "filter (\<lambda>row. py_eq (rq_property_name row) x) ?R = [d]"
      using f none by simp
    with direct_rows_tag [OF dD]
    show "filter (\<lambda>row. py_eq (rq_property_name row) x) ?R = [d]
            \<and> rq_inheritance_type d = ''direct'' \<and> rq_source_concept d = VStr concept_name"
      by simp
  qed
  show ?thesis
    by (rule exI [of _ ?R]) (intro conjI run A B C D)
qed

theorem required_properties_direct_wins_witness:
  "scalar_property_names example_graph
   \<and> (\<exists>rows. get_required_properties_for_concept example_graph ''Table'' ''Concept'' True = Inr rows
         \<and> filter (\<lambda>row. py_eq (rq_property_name row) (VStr ''a'')) rows
            = [\<lparr> rq_property_name = VStr ''a'', rq_property_type = VStr ''DataProperty'',
                  rq_range_type = VNull, rq_comment = VNull, rq_tag = VNull,
                  rq_required = VBool True, rq_default_value = VNull,
                  rq_inheritance_type = ''direct'', rq_source_concept = VStr ''Table'' \<rparr>])
   \<and> VStr ''a'' \<in> rq_property_name ` set (inherited_required_rows example_graph ''Concept'' ''Table'')"
proof -
  let ?row = "\<lparr> rq_property_name = VStr ''a'', rq_property_type = VStr ''DataProperty'',
           rq_range_type = VNull, rq_comment = VNull, rq_tag = VNull,
           rq_required = VBool True, rq_default_value = VNull,
           rq_inheritance_type = ''direct'', rq_source_concept = VStr ''Table'' \<rparr>"
  have scalar: "scalar_property_names example_graph"
    by code_simp
  have f: "filter (\<lambda>row. py_eq (rq_property_name row) (VStr ''a''))
      (direct_required_rows example_graph ''Concept'' ''Table'') = [?row]"
    by code_simp
  have i: "VStr ''a'' \<in> rq_property_name ` set (inherited_required_rows example_graph ''Concept'' ''Table'')"
    by code_simp
  from required_properties_direct_wins [OF scalar, of "''Table''" "''Concept''" "VStr ''a''"]
  obtain rows where run: "get_required_properties_for_concept example_graph ''Table'' ''Concept'' True = Inr rows"
    and once: "\<forall>d. filter (\<lambda>row. py_eq (rq_property_name row) (VStr ''a''))
              (direct_required_rows example_graph ''Concept'' ''Table'') = [d]
        \<longrightarrow> filter (\<lambda>row. py_eq (rq_property_name row) (VStr ''a'')) rows = [d]
            \<and> rq_inheritance_type d = ''direct'' \<and> rq_source_concept d = VStr ''Table''"
    by (elim exE conjE)
  from once [rule_format, OF f] have r: "filter (\<lambda>row. py_eq (rq_property_name row) (VStr ''a'')) rows = [?row]"
    by (rule conjunct1)
  have ex: "\<exists>rows. get_required_properties_for_concept example_graph ''Table'' ''Concept'' True = Inr rows
         \<and> filter (\<lambda>row. py_eq (rq_property_name row) (VStr ''a'')) rows = [?row]"
    by (rule exI [of _ rows]) (simp only: run r simp_thms)
  from scalar ex i show ?thesis by (intro conjI)
qed

section \<open>Validation\<close>

lemma collect_missing_scalar:
  "list_all (\<lambda>row. hashable (rq_property_name row)) rows \<Longrightarrow>
     collect_missing names rows
       = Inr (filter (\<lambda>row. rq_property_name row \<notin> VStr ` set names) rows)"
proof (induction rows)
  case Nil
  then show ?case by simp
next
  case (Cons row rows)
  from Cons.prems have h: "hashable (rq_property_name row)" by simp
  have np: "not_provided names row = Inr (rq_property_name row \<notin> VStr ` set names)"
    using h by (cases "rq_property_name row") (auto simp: not_provided_def)
  from Cons show ?case by (simp add: np)
qed

lemma collect_missing_raises:
  "\<not> list_all (\<lambda>row. hashable (rq_property_name row)) rows \<Longrightarrow>
     collect_missing names rows = Inl unhashable_list"
proof (induction rows)
  case Nil
  then show ?case by simp
next
  case (Cons row rows)
  show ?case
  proof (cases "rq_property_name row")
    case (VList xs)
    then show ?thesis by (simp add: not_provided_def)
  next
    case VNull
    with Cons show ?thesis by (simp add: not_provided_def)
  next
    case (VBool b)
    with Cons show ?thesis by (simp add: not_provided_def)
  next
    case (VStr s)
    with Cons show ?thesis by (simp add: not_provided_def)
  next
    case (VInt i)
    with Cons show ?thesis by (simp add: not_provided_def)
  qed
qed

lemma validate_raises_example:
  "validate_instance_properties list_name_graph ''Table'' [] ''Concept'' True =
     Inl (Failed ''validate instance properties'' (Failed ''get required properties'' unhashable_list))
   \<and> validate_instance_properties list_name_graph ''Table'' [] ''Concept'' False =
     Inl (Failed ''validate instance properties'' unhashable_list)"
  by code_simp

lemma set_remdups_names: "VStr ` set (remdups names) = VStr ` set names"
  by simp

text \<open>
  C3, as the code has it.  In a store whose Property names are scalars,
  \<open>validate_instance_properties\<close> accumulates every required property (direct or
  inherited) whose name is not among the provided keys.  It never returns a result that
  is not valid: when nothing is missing it returns the valid result, and otherwise it
  raises the validation error.  The report of that error counts all the missing
  properties and has one line for each: the direct ones under the header naming the
  concept (their source), the inherited ones with their source concept, each with its
  default value.  For a concept requiring \<open>a\<close>, \<open>b\<close> (direct) and \<open>c\<close> (inherited) and the
  provided set \<open>{a}\<close> the report has exactly the lines for \<open>b\<close> and \<open>c\<close>.
\<close>

theorem validate_reports_all_missing:
  assumes scalar: "scalar_property_names g"
  shows "\<exists>req. get_required_properties_for_concept g concept_name concept_label include_inherited = Inr req
   \<and> (\<forall>v. validate_instance_properties g concept_name provided concept_label include_inherited = Inr v
          \<longrightarrow> vr_valid v \<and> vr_missing_properties v = [])
   \<and> (filter (\<lambda>row. rq_property_name row \<notin> VStr ` set (map fst provided)) req = []
     \<longrightarrow> (\<exists>v. validate_instance_properties g concept_name provided concept_label include_inherited = Inr v
              \<and> vr_valid v \<and> vr_required_properties v = req))
   \<and> (filter (\<lambda>row. rq_property_name row \<notin> VStr ` set (map fst provided)) req \<noteq> []
     \<longrightarrow> (\<exists>rep. validate_instance_properties g concept_name provided concept_label include_inherited
                 = Inl (MissingRequiredProperties rep)
              \<and> mr_concept_name rep = concept_name
              \<and> mr_missing rep
                  = length (filter (\<lambda>row. rq_property_name row \<notin> VStr ` set (map fst provided)) req)
              \<and> mr_direct_lines rep =
                  map (\<lambda>row. DirectLine (rq_property_name row) (rq_property_type row)
                                (rq_default_value row) (rq_comment row))
                    (filter (\<lambda>row. rq_inheritance_type row = ''direct'')
                       (filter (\<lambda>row. rq_property_name row \<notin> VStr ` set (map fst provided)) req))
              \<and> mr_inherited_lines rep =
                  map (\<lambda>row. InheritedLine (rq_property_name row) (rq_property_type row)
                                (rq_default_value row) (rq_source_concept row) (rq_comment row))
                    (filter (\<lambda>row. rq_inheritance_type row = ''inherited'')
                       (filter (\<lambda>row. rq_property_name row \<notin> VStr ` set (map fst provided)) req))
              \<and> (\<forall>row \<in> set (filter (\<lambda>row. rq_property_name row \<notin> VStr ` set (map fst provided)) req).
                    (rq_inheritance_type row = ''direct'' \<and> rq_source_concept row = VStr concept_name)
                    \<or> rq_inheritance_type row = ''inherited'')))"
proof -
  let ?D = "direct_required_rows g concept_label concept_name"
  let ?I = "inherited_required_rows g concept_label concept_name"
  let ?req = "?D @ (if include_inherited
           then filter (\<lambda>inherited_prop.
                   \<not> list_ex (\<lambda>prop. py_eq (rq_property_name prop) (rq_property_name inherited_prop)) ?D) ?I
           else [])"
  let ?mis = "filter (\<lambda>row. rq_property_name row \<notin> VStr ` set (map fst provided)) ?req"
  have run: "get_required_properties_for_concept g concept_name concept_label include_inherited = Inr ?req"
    by (rule get_required_scalar [OF scalar])
  have hreq: "list_all (\<lambda>row. hashable (rq_property_name row)) ?req"
    using scalar_rows [OF scalar, of concept_label concept_name]
    by (auto simp: list_all_iff)
  have loop: "collect_missing (remdups (map fst provided)) ?req = Inr ?mis"
    unfolding collect_missing_scalar [OF hreq] set_remdups_names ..
  have tags: "\<forall>row \<in> set ?mis.
                    (rq_inheritance_type row = ''direct'' \<and> rq_source_concept row = VStr concept_name)
                    \<or> rq_inheritance_type row = ''inherited''"
    using required_rows_tagged [OF run] by auto
  have dl: "map direct_line (filter (\<lambda>p. pi_inheritance_type p = ''direct'') (map prop_info_of ?mis))
      = map (\<lambda>row. DirectLine (rq_property_name row) (rq_property_type row)
                                (rq_default_value row) (rq_comment row))
          (filter (\<lambda>row. rq_inheritance_type row = ''direct'') ?mis)"
    by (simp add: filter_map o_def prop_info_of_def direct_line_def)
  have il: "map inherited_line (filter (\<lambda>p. pi_inheritance_type p = ''inherited'') (map prop_info_of ?mis))
      = map (\<lambda>row. InheritedLine (rq_property_name row) (rq_property_type row)
                                (rq_default_value row) (rq_source_concept row) (rq_comment row))
          (filter (\<lambda>row. rq_inheritance_type row = ''inherited'') ?mis)"
    by (simp add: filter_map o_def prop_info_of_def inherited_line_def)
  have ok: "?mis = [] \<Longrightarrow> validate_instance_properties g concept_name provided concept_label include_inherited
      = Inr \<lparr> vr_valid = True,
              vr_total_required = length ?req,
              vr_direct_required = length (filter (\<lambda>p. rq_inheritance_type p = ''direct'') ?req),
              vr_inherited_required = length (filter (\<lambda>p. rq_inheritance_type p = ''inherited'') ?req),
              vr_provided_count = length (remdups (map fst provided)),
              vr_missing_properties = [],
              vr_missing_direct = [],
              vr_missing_inherited = [],
              vr_required_properties = ?req,
              vr_inheritance_enabled = include_inherited \<rparr>"
    by (simp add: validate_instance_properties_def run loop Let_def)
  have bad: "?mis \<noteq> [] \<Longrightarrow> validate_instance_properties g concept_name provided concept_label include_inherited
       = Inl (MissingRequiredProperties
                \<lparr> mr_concept_label = concept_label,
                  mr_concept_name = concept_name,
                  mr_direct_lines = map direct_line
                     (filter (\<lambda>p. pi_inheritance_type p = ''direct'') (map prop_info_of ?mis)),
                  mr_inherited_lines = map inherited_line
                     (filter (\<lambda>p. pi_inheritance_type p = ''inherited'') (map prop_info_of ?mis)),
                  mr_total_required = length ?req,
                  mr_direct_count = length (filter (\<lambda>p. rq_inheritance_type p = ''direct'') ?req),
                  mr_inherited_count = length (filter (\<lambda>p. rq_inheritance_type p = ''inherited'') ?req),
                  mr_provided = length (remdups (map fst provided)),
                  mr_missing = length (map prop_info_of ?mis) \<rparr>)"
    by (simp add: validate_instance_properties_def run loop Let_def)
  have N: "\<forall>v. validate_instance_properties g concept_name provided concept_label include_inherited = Inr v
          \<longrightarrow> vr_valid v \<and> vr_missing_properties v = []"
  proof (cases "?mis = []")
    case True
    from ok [OF True] show ?thesis by simp
  next
    case False
    from bad [OF False] show ?thesis by simp
  qed
  have A: "?mis = [] \<longrightarrow> (\<exists>v. validate_instance_properties g concept_name provided concept_label include_inherited = Inr v
              \<and> vr_valid v \<and> vr_required_properties v = ?req)"
  proof
    assume e: "?mis = []"
    show "\<exists>v. validate_instance_properties g concept_name provided concept_label include_inherited = Inr v
              \<and> vr_valid v \<and> vr_required_properties v = ?req"
      unfolding ok [OF e] by simp
  qed
  have B: "?mis \<noteq> [] \<longrightarrow> (\<exists>rep. validate_instance_properties g concept_name provided concept_label include_inherited
                 = Inl (MissingRequiredProperties rep)
              \<and> mr_concept_name rep = concept_name
              \<and> mr_missing rep = length ?mis
              \<and> mr_direct_lines rep =
                  map (\<lambda>row. DirectLine (rq_property_name row) (rq_property_type row)
                                (rq_default_value row) (rq_comment row))
                    (filter (\<lambda>row. rq_inheritance_type row = ''direct'') ?mis)
              \<and> mr_inherited_lines rep =
                  map (\<lambda>row. InheritedLine (rq_property_name row) (rq_property_type row)
                                (rq_default_value row) (rq_source_concept row) (rq_comment row))
                    (filter (\<lambda>row. rq_inheritance_type row = ''inherited'') ?mis)
              \<and> (\<forall>row \<in> set ?mis.
                    (rq_inheritance_type row = ''direct'' \<and> rq_source_concept row = VStr concept_name)
                    \<or> rq_inheritance_type row = ''inherited''))"
  proof
    assume ne: "?mis \<noteq> []"
    show "\<exists>rep. validate_instance_properties g concept_name provided concept_label include_inherited
                 = Inl (MissingRequiredProperties rep)
              \<and> mr_concept_name rep = concept_name
              \<and> mr_missing rep = length ?mis
              \<and> mr_direct_lines rep =
                  map (\<lambda>row. DirectLine (rq_property_name row) (rq_property_type row)
                                (rq_default_value row) (rq_comment row))
                    (filter (\<lambda>row. rq_inheritance_type row = ''direct'') ?mis)
              \<and> mr_inherited_lines rep =
                  map (\<lambda>row. InheritedLine (rq_property_name row) (rq_property_type row)
                                (rq_default_value row) (rq_source_concept row) (rq_comment row))
                    (filter (\<lambda>row. rq_inheritance_type row = ''inherited'') ?mis)
              \<and> (\<forall>row \<in> set ?mis.
                    (rq_inheritance_type row = ''direct'' \<and> rq_source_concept row = VStr concept_name)
                    \<or> rq_inheritance_type row = ''inherited'')"
      unfolding bad [OF ne] using dl il tags by simp
  qed
  show ?thesis
    by (rule exI [of _ ?req]) (intro conjI run N A B)
qed

theorem validate_reports_all_missing_witness:
  "scalar_property_names example_graph
   \<and> (\<exists>rep. validate_instance_properties example_graph ''Table'' [(''a'', VInt 1)] ''Concept'' True
           = Inl (MissingRequiredProperties rep)
     \<and> mr_missing rep = 2
     \<and> mr_direct_lines rep = [DirectLine (VStr ''b'') (VStr ''DataProperty'') VNull VNull]
     \<and> mr_inherited_lines rep
         = [InheritedLine (VStr ''c'') (VStr ''DataProperty'') (VInt 3) (VStr ''Asset'') VNull])"
proof -
  let ?R = "projr (get_required_properties_for_concept example_graph ''Table'' ''Concept'' True)"
  let ?mis = "filter (\<lambda>row. rq_property_name row \<notin> VStr ` set (map fst [(''a'', VInt 1)])) ?R"
  have scalar: "scalar_property_names example_graph"
    by code_simp
  have ne: "?mis \<noteq> []"
    by code_simp
  have len: "length ?mis = 2"
    by code_simp
  have d: "map (\<lambda>row. DirectLine (rq_property_name row) (rq_property_type row)
                                (rq_default_value row) (rq_comment row))
                    (filter (\<lambda>row. rq_inheritance_type row = ''direct'') ?mis)
      = [DirectLine (VStr ''b'') (VStr ''DataProperty'') VNull VNull]"
    by code_simp
  have i: "map (\<lambda>row. InheritedLine (rq_property_name row) (rq_property_type row)
                                (rq_default_value row) (rq_source_concept row) (rq_comment row))
                    (filter (\<lambda>row. rq_inheritance_type row = ''inherited'') ?mis)
      = [InheritedLine (VStr ''c'') (VStr ''DataProperty'') (VInt 3) (VStr ''Asset'') VNull]"
    by code_simp
  from validate_reports_all_missing [OF scalar, of "''Table''" "''Concept''" True "[(''a'', VInt 1)]"]
  obtain req where run: "get_required_properties_for_concept example_graph ''Table'' ''Concept'' True = Inr req"
    and bad: "filter (\<lambda>row. rq_property_name row \<notin> VStr ` set (map fst [(''a'', VInt 1)])) req \<noteq> []
     \<longrightarrow> (\<exists>rep. validate_instance_properties example_graph ''Table'' [(''a'', VInt 1)] ''Concept'' True
                 = Inl (MissingRequiredProperties rep)
              \<and> mr_concept_name rep = ''Table''
              \<and> mr_missing rep
                  = length (filter (\<lambda>row. rq_property_name row \<notin> VStr ` set (map fst [(''a'', VInt 1)])) req)
              \<and> mr_direct_lines rep =
                  map (\<lambda>row. DirectLine (rq_property_name row) (rq_property_type row)
                                (rq_default_value row) (rq_comment row))
                    (filter (\<lambda>row. rq_inheritance_type row = ''direct'')
                       (filter (\<lambda>row. rq_property_name row \<notin> VStr ` set (map fst [(''a'', VInt 1)])) req))
              \<and> mr_inherited_lines rep =
                  map (\<lambda>row. InheritedLine (rq_property_name row) (rq_property_type row)
                                (rq_default_value row) (rq_source_concept row) (rq_comment row))
                    (filter (\<lambda>row. rq_inheritance_type row = ''inherited'')
                       (filter (\<lambda>row. rq_property_name row \<notin> VStr ` set (map fst [(''a'', VInt 1)])) req))
              \<and> (\<forall>row \<in> set (filter (\<lambda>row. rq_property_name row \<notin> VStr ` set (map fst [(''a'', VInt 1)])) req).
                    (rq_inheritance_type row = ''direct'' \<and> rq_source_concept row = VStr ''Table'')
                    \<or> rq_inheritance_type row = ''inherited''))"
    by (elim exE conjE)
  from run have req: "req = ?R" by simp
  from bad [unfolded req, rule_format, OF ne]
  obtain rep where
    r: "validate_instance_properties example_graph ''Table'' [(''a'', VInt 1)] ''Concept'' True
           = Inl (MissingRequiredProperties rep)"
    and m: "mr_missing rep = length ?mis"
    and dl: "mr_direct_lines rep = map (\<lambda>row. DirectLine (rq_property_name row) (rq_property_type row)
                                (rq_default_value row) (rq_comment row))
                    (filter (\<lambda>row. rq_inheritance_type row = ''direct'') ?mis)"
    and il: "mr_inherited_lines rep = map (\<lambda>row. InheritedLine (rq_property_name row) (rq_property_type row)
                                (rq_default_value row) (rq_source_concept row) (rq_comment row))
                    (filter (\<lambda>row. rq_inheritance_type row = ''inherited'') ?mis)"
    by (elim exE conjE)
  have ex: "\<exists>rep. validate_instance_properties example_graph ''Table'' [(''a'', VInt 1)] ''Concept'' True
           = Inl (MissingRequiredProperties rep)
     \<and> mr_missing rep = 2
     \<and> mr_direct_lines rep = [DirectLine (VStr ''b'') (VStr ''DataProperty'') VNull VNull]
     \<and> mr_inherited_lines rep
         = [InheritedLine (VStr ''c'') (VStr ''DataProperty'') (VInt 3) (VStr ''Asset'') VNull]"
    by (rule exI [of _ rep]) (simp only: r m dl il len d i simp_thms)
  from scalar ex show ?thesis by (rule conjI)
qed

text \<open>
  C3 as stated fails in that nothing is returned: for the concept requiring \<open>a\<close>, \<open>b\<close>
  and \<open>c\<close> and the provided set \<open>{a}\<close> the call raises the validation error, and there
  is no returned result, so none with \<open>valid = false\<close>.
\<close>

theorem validate_raises_instead_of_returning_counterexample:
  "validate_instance_properties example_graph ''Table'' [(''a'', VInt 1)] ''Concept'' True
     = Inl (MissingRequiredProperties
             \<lparr> mr_concept_label = ''Concept'', mr_concept_name = ''Table'',
               mr_direct_lines = [DirectLine (VStr ''b'') (VStr ''DataProperty'') VNull VNull],
               mr_inherited_lines =
                 [InheritedLine (VStr ''c'') (VStr ''DataProperty'') (VInt 3) (VStr ''Asset'') VNull],
               mr_total_required = 3, mr_direct_count = 2, mr_inherited_count = 1,
               mr_provided = 1, mr_missing = 2 \<rparr>)
   \<and> (\<nexists>v. validate_instance_properties example_graph ''Table'' [(''a'', VInt 1)] ''Concept'' True
             = Inr v)"
proof -
  have e: "validate_instance_properties example_graph ''Table'' [(''a'', VInt 1)] ''Concept'' True
     = Inl (MissingRequiredProperties
             \<lparr> mr_concept_label = ''Concept'', mr_concept_name = ''Table'',
               mr_direct_lines = [DirectLine (VStr ''b'') (VStr ''DataProperty'') VNull VNull],
               mr_inherited_lines =
                 [InheritedLine (VStr ''c'') (VStr ''DataProperty'') (VInt 3) (VStr ''Asset'') VNull],
               mr_total_required = 3, mr_direct_count = 2, mr_inherited_count = 1,
               mr_provided = 1, mr_missing = 2 \<rparr>)"
    by code_simp
  show ?thesis unfolding e by simp
qed

section \<open>Idempotent relationship creation\<close>

lemma length_endpoint_pairs:
  "length (endpoint_pairs g fq tq params)
     = length (match_pattern g fq params) * length (match_pattern g tq params)"
  by (induction "match_pattern g fq params" arbitrary: )
     (simp_all add: endpoint_pairs_def length_concat o_def sum_list_triv)

lemma match_pattern_edges [simp]:
  "match_pattern (g\<lparr>edges := es\<rparr>) pat params = match_pattern g pat params"
  by (simp add: match_pattern_def)

lemma endpoint_pairs_edges [simp]:
  "endpoint_pairs (g\<lparr>edges := es\<rparr>) fq tq params = endpoint_pairs g fq tq params"
  by (simp add: endpoint_pairs_def)

lemma singleton_pairs:
  assumes "length (endpoint_pairs g fq tq params) = 1"
  obtains f t where "match_pattern g fq params = [f]" "match_pattern g tq params = [t]"
    "endpoint_pairs g fq tq params = [(f, t)]"
proof -
  from assms have "length (match_pattern g fq params) * length (match_pattern g tq params) = 1"
    by (simp add: length_endpoint_pairs)
  then have "length (match_pattern g fq params) = 1" "length (match_pattern g tq params) = 1"
    by simp_all
  then obtain f t where ft: "match_pattern g fq params = [f]" "match_pattern g tq params = [t]"
    by (auto simp: length_Suc_conv)
  then have "endpoint_pairs g fq tq params = [(f, t)]"
    by (simp add: endpoint_pairs_def)
  with ft that show thesis by blast
qed

lemma map_of_write_stats_created:
  "map_of (write_stats records a b c d e f) ''relationships_created'' = Some (RNat c)"
  by (simp add: write_stats_def)

lemma map_of_write_stats_status:
  "map_of (write_stats records a b c d e f) ''status'' = None"
  by (simp add: write_stats_def)

lemma skipped_stats_entries:
  "map_of (skipped_stats w) ''status'' = Some (RStr ''already_exists'')"
  "map_of (skipped_stats w) ''warning'' = Some (RStr w)"
  "map_of (skipped_stats w) ''relationships_created'' = Some (RNat 0)"
  by (simp_all add: skipped_stats_def write_stats_def)

text \<open>
  C1.  Let a first call of \<open>create_relationship\<close> succeed in creating the relationship
  (it reports \<open>relationships_created = 1\<close>).  Then each endpoint pattern matches exactly
  one node, and a second call with the same arguments on the resulting store creates
  nothing: it leaves the store as it is and returns status \<open>already_exists\<close> with the
  warning text and \<open>relationships_created = 0\<close>; exactly one relationship of that type
  leads from the one endpoint to the other.
\<close>

theorem create_relationship_idempotent:
  assumes first: "create_relationship g from_node_query to_node_query relationship_type
                    properties from_params to_params = (g1, Inr r1)"
    and created: "map_of r1 ''relationships_created'' = Some (RNat 1)"
  shows "(\<exists>r2. create_relationship g1 from_node_query to_node_query relationship_type
                 properties from_params to_params = (g1, Inr r2)
              \<and> map_of r2 ''status'' = Some (RStr ''already_exists'')
              \<and> map_of r2 ''warning''
                   = Some (RStr (''Relationship '' @ relationship_type @ '' already exists and was skipped''))
              \<and> map_of r2 ''relationships_created'' = Some (RNat 0))
         \<and> (\<exists>f t. match_pattern g1 from_node_query (merge_params from_params to_params) = [f]
                 \<and> match_pattern g1 to_node_query (merge_params from_params to_params) = [t]
                 \<and> length (filter (\<lambda>e. etype e = relationship_type \<and> esrc e = nid f \<and> edst e = nid t)
                             (edges g1)) = 1)"
proof -
  let ?params = "merge_params from_params to_params"
  let ?pairs = "endpoint_pairs g from_node_query to_node_query ?params"
  let ?rel_props = "case properties of None \<Rightarrow> [] | Some d \<Rightarrow> d"
  let ?created = "new_edges (fresh_id g) relationship_type ?rel_props ?pairs"
  have bound: "params_bound from_node_query ?params \<and> params_bound to_node_query ?params"
    using first by (auto simp: create_relationship_def Let_def split: if_splits)
  have noex: "\<not> (case ?pairs of [] \<Rightarrow> False
                  | (from, to) # _ \<Rightarrow> relationship_exists g relationship_type from to)"
  proof
    assume "case ?pairs of [] \<Rightarrow> False
                  | (from, to) # _ \<Rightarrow> relationship_exists g relationship_type from to"
    with first bound have "r1 = skipped_stats (''Relationship '' @ relationship_type @ '' already exists and was skipped'')"
      by (simp add: create_relationship_def Let_def)
    with created show False by (simp add: skipped_stats_entries)
  qed
  from first bound noex have g1: "g1 = g\<lparr>edges := edges g @ ?created\<rparr>"
    and r1: "r1 = write_stats (map EdgeE ?created) 0 0 (length ?created) 0
                         (length ?created * length (filter (\<lambda>(k, v). v \<noteq> VNull) ?rel_props)) 0"
    by (simp_all add: create_relationship_def Let_def)
  from r1 created have "length ?created = 1"
    by (simp add: map_of_write_stats_created)
  then have "length ?pairs = 1"
    by (simp add: new_edges_def)
  then obtain f t where f: "match_pattern g from_node_query ?params = [f]"
    and t: "match_pattern g to_node_query ?params = [t]"
    and pairs: "?pairs = [(f, t)]"
    by (rule singleton_pairs)
  from noex pairs have none: "\<not> relationship_exists g relationship_type f t"
    by simp
  have cr: "?created = [\<lparr> eid = fresh_id g, etype = relationship_type, esrc = nid f, edst = nid t,
              eprops = filter (\<lambda>(k, v). v \<noteq> VNull) ?rel_props \<rparr>]"
    using pairs by (simp add: new_edges_def)
  have ex1: "relationship_exists g1 relationship_type f t"
    unfolding g1 cr by (simp add: relationship_exists_def)
  have pairs1: "endpoint_pairs g1 from_node_query to_node_query ?params = [(f, t)]"
    unfolding g1 using pairs by simp
  have second: "create_relationship g1 from_node_query to_node_query relationship_type
                 properties from_params to_params
      = (g1, Inr (skipped_stats (''Relationship '' @ relationship_type @ '' already exists and was skipped'')))"
    using bound pairs1 ex1 by (simp add: create_relationship_def Let_def)
  have A: "\<exists>r2. create_relationship g1 from_node_query to_node_query relationship_type
                 properties from_params to_params = (g1, Inr r2)
              \<and> map_of r2 ''status'' = Some (RStr ''already_exists'')
              \<and> map_of r2 ''warning''
                   = Some (RStr (''Relationship '' @ relationship_type @ '' already exists and was skipped''))
              \<and> map_of r2 ''relationships_created'' = Some (RNat 0)"
    unfolding second by (simp add: skipped_stats_entries)
  from none have zero: "filter (\<lambda>e. etype e = relationship_type \<and> esrc e = nid f \<and> edst e = nid t) (edges g) = []"
    by (auto simp: relationship_exists_def list_ex_iff filter_empty_conv)
  have one: "length (filter (\<lambda>e. etype e = relationship_type \<and> esrc e = nid f \<and> edst e = nid t)
                             (edges g1)) = 1"
    unfolding g1 cr using zero by simp
  have B: "\<exists>f t. match_pattern g1 from_node_query ?params = [f]
                 \<and> match_pattern g1 to_node_query ?params = [t]
                 \<and> length (filter (\<lambda>e. etype e = relationship_type \<and> esrc e = nid f \<and> edst e = nid t)
                             (edges g1)) = 1"
    using f t one unfolding g1 by (intro exI [of _ f] exI [of _ t]) simp
  from A B show ?thesis by (rule conjI)
qed

theorem create_relationship_idempotent_witness:
  "create_relationship example_graph
      \<lparr> np_labels = [''Concept''], np_params = [(''name'', ''from_name'')] \<rparr>
      \<lparr> np_labels = [''Concept''], np_params = [(''name'', ''to_name'')] \<rparr>
      ''RELATED_TO'' (Some [(''created_at'', VStr ''t0'')])
      (Some [(''from_name'', VStr ''Table'')]) (Some [(''to_name'', VStr ''Asset'')])
     = (related_graph,
        Inr (write_stats [EdgeE \<lparr> eid = 15, etype = ''RELATED_TO'', esrc = 1, edst = 2,
                                  eprops = [(''created_at'', VStr ''t0'')] \<rparr>] 0 0 1 0 1 0))
   \<and> (\<exists>r2. create_relationship related_graph
      \<lparr> np_labels = [''Concept''], np_params = [(''name'', ''from_name'')] \<rparr>
      \<lparr> np_labels = [''Concept''], np_params = [(''name'', ''to_name'')] \<rparr>
      ''RELATED_TO'' (Some [(''created_at'', VStr ''t0'')])
      (Some [(''from_name'', VStr ''Table'')]) (Some [(''to_name'', VStr ''Asset'')])
        = (related_graph, Inr r2)
      \<and> map_of r2 ''status'' = Some (RStr ''already_exists'')
      \<and> map_of r2 ''relationships_created'' = Some (RNat 0))
   \<and> length (filter (\<lambda>e. etype e = ''RELATED_TO'' \<and> esrc e = 1 \<and> edst e = 2) (edges related_graph)) = 1"
proof -
  have first: "create_relationship example_graph
      \<lparr> np_labels = [''Concept''], np_params = [(''name'', ''from_name'')] \<rparr>
      \<lparr> np_labels = [''Concept''], np_params = [(''name'', ''to_name'')] \<rparr>
      ''RELATED_TO'' (Some [(''created_at'', VStr ''t0'')])
      (Some [(''from_name'', VStr ''Table'')]) (Some [(''to_name'', VStr ''Asset'')])
     = (related_graph,
        Inr (write_stats [EdgeE \<lparr> eid = 15, etype = ''RELATED_TO'', esrc = 1, edst = 2,
                                  eprops = [(''created_at'', VStr ''t0'')] \<rparr>] 0 0 1 0 1 0))"
    by code_simp
  have created: "map_of (write_stats [EdgeE \<lparr> eid = 15, etype = ''RELATED_TO'', esrc = 1, edst = 2,
                                  eprops = [(''created_at'', VStr ''t0'')] \<rparr>] 0 0 1 0 1 0)
       ''relationships_created'' = Some (RNat 1)"
    by (simp add: write_stats_def)
  have cnt: "length (filter (\<lambda>e. etype e = ''RELATED_TO'' \<and> esrc e = 1 \<and> edst e = 2) (edges related_graph)) = 1"
    by code_simp
  from create_relationship_idempotent [OF first created, THEN conjunct1]
  obtain r2 where r2: "create_relationship related_graph
      \<lparr> np_labels = [''Concept''], np_params = [(''name'', ''from_name'')] \<rparr>
      \<lparr> np_labels = [''Concept''], np_params = [(''name'', ''to_name'')] \<rparr>
      ''RELATED_TO'' (Some [(''created_at'', VStr ''t0'')])
      (Some [(''from_name'', VStr ''Table'')]) (Some [(''to_name'', VStr ''Asset'')])
        = (related_graph, Inr r2)"
    and st: "map_of r2 ''status'' = Some (RStr ''already_exists'')"
    and rc: "map_of r2 ''relationships_created'' = Some (RNat 0)"
    by (elim exE conjE)
  have ex: "\<exists>r2. create_relationship related_graph
      \<lparr> np_labels = [''Concept''], np_params = [(''name'', ''from_name'')] \<rparr>
      \<lparr> np_labels = [''Concept''], np_params = [(''name'', ''to_name'')] \<rparr>
      ''RELATED_TO'' (Some [(''created_at'', VStr ''t0'')])
      (Some [(''from_name'', VStr ''Table'')]) (Some [(''to_name'', VStr ''Asset'')])
        = (related_graph, Inr r2)
      \<and> map_of r2 ''status'' = Some (RStr ''already_exists'')
      \<and> map_of r2 ''relationships_created'' = Some (RNat 0)"
    by (rule exI [of _ r2]) (simp only: r2 st rc simp_thms)
  from first ex cnt show ?thesis by (intro conjI)
qed

section \<open>Cascading deletion of an Object\<close>

lemma set_field_rows: "set (field_rows g obj) = linked_fields g obj"
  by (auto simp: field_rows_def linked_fields_def nodes_at_def)

lemma nid_inj: "distinct (map nid (nodes g)) \<Longrightarrow> inj_on nid (set (nodes g))"
  by (simp add: distinct_map)

lemma object_not_field:
  assumes "object_nodes g object_name = [obj]"
  shows "obj \<in> set (nodes g)" and "obj \<notin> linked_fields g obj"
proof -
  from assms have "obj \<in> set (object_nodes g object_name)" by simp
  then have m: "obj \<in> set (nodes g)"
    and io: "cy_eq (prop_get (nprops obj) ''instance_of'') (VStr ''Object'')"
    by (simp_all add: object_nodes_def)
  from m show "obj \<in> set (nodes g)" .
  from io have "\<not> is_object_field obj"
    by (auto simp: is_object_field_def cy_eq_def)
  then show "obj \<notin> linked_fields g obj"
    by (simp add: linked_fields_def)
qed

lemma removed_ids:
  assumes ids: "distinct (map nid (nodes g))"
    and sub: "S \<subseteq> set (nodes g)" and n: "n \<in> set (nodes g)"
  shows "nid n \<in> nid ` S \<longleftrightarrow> n \<in> S"
  using nid_inj [OF ids] sub n by (auto dest: inj_onD)

text \<open>
  C5.  In a store whose nodes have distinct identities, let \<open>obj\<close> be the one Instance
  node with the given name and \<open>instance_of = 'Object'\<close>, and let \<open>linked_fields g obj\<close>
  be its ObjectField instances.  Then \<open>delete_object_by_name\<close> returns status
  \<open>deleted\<close> with \<open>fields_count\<close> the number of those fields; its one write removes
  \<open>obj\<close>, all of those fields and every relationship incident to any of them, and
  nothing else.
\<close>

theorem delete_object_cascades:
  assumes ids: "distinct (map nid (nodes g))"
    and obj: "object_nodes g object_name = [obj]"
  shows "\<exists>g' res. delete_object_by_name g object_name fail_if_not_found = (g', Inr res)
           \<and> map_of res ''status'' = Some (RStr ''deleted'')
           \<and> map_of res ''fields_count'' = Some (RNat (card (linked_fields g obj)))
           \<and> map_of res ''nodes_deleted'' = Some (RNat (card (linked_fields g obj) + 1))
           \<and> map_of res ''relationships_deleted''
               = Some (RNat (length (filter (\<lambda>e. esrc e \<in> nid ` insert obj (linked_fields g obj)
                                              \<or> edst e \<in> nid ` insert obj (linked_fields g obj)) (edges g))))
           \<and> nodes g' = filter (\<lambda>n. n \<notin> insert obj (linked_fields g obj)) (nodes g)
           \<and> edges g' = filter (\<lambda>e. esrc e \<notin> nid ` insert obj (linked_fields g obj)
                                    \<and> edst e \<notin> nid ` insert obj (linked_fields g obj)) (edges g)"
proof -
  let ?F = "linked_fields g obj"
  let ?D = "insert obj ?F"
  let ?ids = "map nid (field_rows g obj) @ [nid obj]"
  let ?g' = "detach_delete g ?ids"
  have objm: "obj \<in> set (nodes g)" and objF: "obj \<notin> ?F"
    using object_not_field [OF obj] by blast+
  have Fsub: "?F \<subseteq> set (nodes g)" by (auto simp: linked_fields_def)
  then have Dsub: "?D \<subseteq> set (nodes g)" using objm by blast
  have finF: "finite ?F" using Fsub by (rule finite_subset) simp
  have setids: "set ?ids = nid ` ?D"
    by (auto simp: set_field_rows)
  have dn: "distinct (nodes g)" using ids by (rule distinct_map [THEN iffD1, THEN conjunct1])
  have nodes': "nodes ?g' = filter (\<lambda>n. n \<notin> ?D) (nodes g)"
    unfolding detach_delete_def setids
    using removed_ids [OF ids Dsub] by (simp cong: filter_cong)
  have edges': "edges ?g' = filter (\<lambda>e. esrc e \<notin> nid ` ?D \<and> edst e \<notin> nid ` ?D) (edges g)"
    unfolding detach_delete_def setids by simp
  have fc: "length (remdups (map nid (field_rows g obj))) = card ?F"
  proof -
    have "length (remdups (map nid (field_rows g obj))) = card (set (map nid (field_rows g obj)))"
      by (simp add: length_remdups_card_conv)
    also have "\<dots> = card (nid ` ?F)" by (simp add: set_field_rows)
    also have "\<dots> = card ?F"
      by (rule card_image) (rule inj_on_subset [OF nid_inj [OF ids] Fsub])
    finally show ?thesis .
  qed
  have nd: "length (nodes g) - length (nodes ?g') = card ?F + 1"
  proof -
    have "length (nodes g) = length (filter (\<lambda>n. n \<in> ?D) (nodes g)) + length (nodes ?g')"
      unfolding nodes' using sum_length_filter_compl [of "\<lambda>n. n \<in> ?D" "nodes g"] by simp
    moreover have "length (filter (\<lambda>n. n \<in> ?D) (nodes g)) = card ?D"
    proof -
      have "length (filter (\<lambda>n. n \<in> ?D) (nodes g)) = card ({n. n \<in> ?D} \<inter> set (nodes g))"
        using dn by (rule distinct_length_filter)
      also have "{n. n \<in> ?D} \<inter> set (nodes g) = ?D" using Dsub by blast
      finally show ?thesis .
    qed
    moreover have "card ?D = card ?F + 1" using finF objF by simp
    ultimately show ?thesis by simp
  qed
  have rd: "length (edges g) - length (edges ?g')
      = length (filter (\<lambda>e. esrc e \<in> nid ` ?D \<or> edst e \<in> nid ` ?D) (edges g))"
  proof -
    have "length (edges g) = length (filter (\<lambda>e. esrc e \<in> nid ` ?D \<or> edst e \<in> nid ` ?D) (edges g))
        + length (filter (\<lambda>e. \<not> (esrc e \<in> nid ` ?D \<or> edst e \<in> nid ` ?D)) (edges g))"
      using sum_length_filter_compl [of "\<lambda>e. esrc e \<in> nid ` ?D \<or> edst e \<in> nid ` ?D" "edges g"] by simp
    then show ?thesis unfolding edges' by simp
  qed
  have run: "delete_object_by_name g object_name fail_if_not_found
      = (?g', Inr [(''name'', RStr object_name), (''objects_count'', RNat 1),
                   (''fields_count'', RNat (length (remdups (map nid (field_rows g obj))))),
                   (''nodes_deleted'', RNat (length (nodes g) - length (nodes ?g'))),
                   (''relationships_deleted'', RNat (length (edges g) - length (edges ?g'))),
                   (''status'', RStr ''deleted'')])"
    by (simp add: delete_object_by_name_def obj Let_def)
  show ?thesis
    unfolding run fc nd rd
    by (intro exI conjI, rule refl) (simp_all add: nodes' edges')
qed

theorem delete_object_cascades_witness:
  "\<exists>g' res. delete_object_by_name object_graph ''orders'' True = (g', Inr res)
      \<and> map_of res ''status'' = Some (RStr ''deleted'')
      \<and> map_of res ''fields_count'' = Some (RNat 3)
      \<and> map_of res ''nodes_deleted'' = Some (RNat 4)
      \<and> map_of res ''relationships_deleted'' = Some (RNat 4)
      \<and> map nid (nodes g') = [5]
      \<and> edges g' = []"
proof -
  have ids: "distinct (map nid (nodes object_graph))"
    by code_simp
  have obj: "object_nodes object_graph ''orders'' = [orders_node]"
    by code_simp
  have c: "card (linked_fields object_graph orders_node) = 3"
    by code_simp
  have r: "length (filter (\<lambda>e. esrc e \<in> nid ` insert orders_node (linked_fields object_graph orders_node)
                              \<or> edst e \<in> nid ` insert orders_node (linked_fields object_graph orders_node))
                      (edges object_graph)) = 4"
    by code_simp
  have n: "map nid (filter (\<lambda>n. n \<notin> insert orders_node (linked_fields object_graph orders_node))
                      (nodes object_graph)) = [5]"
    by code_simp
  have e: "filter (\<lambda>e. esrc e \<notin> nid ` insert orders_node (linked_fields object_graph orders_node)
                        \<and> edst e \<notin> nid ` insert orders_node (linked_fields object_graph orders_node))
                      (edges object_graph) = []"
    by code_simp
  from delete_object_cascades [OF ids obj, of True]
  obtain g' res where run: "delete_object_by_name object_graph ''orders'' True = (g', Inr res)"
    and st: "map_of res ''status'' = Some (RStr ''deleted'')"
    and fc: "map_of res ''fields_count'' = Some (RNat (card (linked_fields object_graph orders_node)))"
    and nd: "map_of res ''nodes_deleted'' = Some (RNat (card (linked_fields object_graph orders_node) + 1))"
    and rd: "map_of res ''relationships_deleted''
               = Some (RNat (length (filter (\<lambda>e. esrc e \<in> nid ` insert orders_node (linked_fields object_graph orders_node)
                                              \<or> edst e \<in> nid ` insert orders_node (linked_fields object_graph orders_node)) (edges object_graph))))"
    and ns: "nodes g' = filter (\<lambda>n. n \<notin> insert orders_node (linked_fields object_graph orders_node)) (nodes object_graph)"
    and es: "edges g' = filter (\<lambda>e. esrc e \<notin> nid ` insert orders_node (linked_fields object_graph orders_node)
                                    \<and> edst e \<notin> nid ` insert orders_node (linked_fields object_graph orders_node)) (edges object_graph)"
    by (elim exE conjE)
  show ?thesis
    by (rule exI [of _ g'], rule exI [of _ res])
       (simp only: run st fc nd rd ns es c r n e simp_thms, simp)
qed

section \<open>The ObjectProperty existence gate\<close>

lemma missing_targets_iff:
  "(p, t) \<in> set (missing_targets g object_properties) \<longleftrightarrow>
     (\<exists>tv. (p, tv) \<in> set object_properties \<and> t \<in> set (target_names tv)
        \<and> \<not> check_name_exists g t (Some ''Instance''))"
  by (auto simp: missing_targets_def)

lemma create_instance_node_of_failed_checks:
  "pre_checks pl g a = Inl e \<Longrightarrow>
     create_instance_node pl g now a = (g, Inl (Failed ''create instance node'' e))"
  by (simp add: create_instance_node_def)

text \<open>
  C4, as the code has it.  Let ObjectProperty auto-creation be enabled and let some
  ObjectProperty of the call name a target that is no Instance node.  Then
  \<open>create_instance_node\<close> raises and the store is as it was: nothing is written, no
  Instance node is created.  When the concept check and the required-property validation
  pass, the error raised is the ObjectProperty validation error, and its list holds
  exactly the pairs of a property and a target of it that does not exist: all of them,
  not only the first.
\<close>

theorem object_property_gate:
  assumes enabled: "arg_auto_create_object_property_relationships a"
    and member: "(prop_name, target_value) \<in> set (object_properties_of g (arg_properties a))"
    and target: "target \<in> set (target_names target_value)"
    and absent: "\<not> check_name_exists g target (Some ''Instance'')"
  shows "(\<exists>e. create_instance_node pl g now a = (g, Inl (Failed ''create instance node'' e)))
     \<and> (\<forall>l. resolve_concept pl g a = Inr l
            \<and> (arg_validate_required_properties a \<longrightarrow>
                 (\<exists>v. validate_instance_properties g (arg_concept_type a)
                         (without_name (arg_properties a)) (label_text l) True = Inr v))
          \<longrightarrow> create_instance_node pl g now a
               = (g, Inl (Failed ''create instance node''
                        (ObjectPropertyValidationFailed
                           (missing_targets g (object_properties_of g (arg_properties a)))))))
     \<and> (\<forall>p t. (p, t) \<in> set (missing_targets g (object_properties_of g (arg_properties a)))
            \<longleftrightarrow> (\<exists>tv. (p, tv) \<in> set (object_properties_of g (arg_properties a))
                      \<and> t \<in> set (target_names tv)
                      \<and> \<not> check_name_exists g t (Some ''Instance'')))"
proof -
  let ?ops = "object_properties_of g (arg_properties a)"
  from member target absent have "(prop_name, target) \<in> set (missing_targets g ?ops)"
    unfolding missing_targets_iff by blast
  then have mne: "missing_targets g ?ops \<noteq> []" by auto
  from member have one: "?ops \<noteq> []" by auto
  have gate: "validate_object_property_targets g ?ops
      = Inl (ObjectPropertyValidationFailed (missing_targets g ?ops))"
    using mne by (simp add: validate_object_property_targets_def)
  have A: "\<exists>e. pre_checks pl g a = Inl e"
    using enabled one gate
    by (auto simp: pre_checks_def split: sum.splits)
  then obtain e where "pre_checks pl g a = Inl e" ..
  then have A': "\<exists>e. create_instance_node pl g now a = (g, Inl (Failed ''create instance node'' e))"
    using create_instance_node_of_failed_checks by blast
  have B: "\<forall>l. resolve_concept pl g a = Inr l
            \<and> (arg_validate_required_properties a \<longrightarrow>
                 (\<exists>v. validate_instance_properties g (arg_concept_type a)
                         (without_name (arg_properties a)) (label_text l) True = Inr v))
          \<longrightarrow> create_instance_node pl g now a
               = (g, Inl (Failed ''create instance node''
                        (ObjectPropertyValidationFailed (missing_targets g ?ops))))"
  proof (intro allI impI)
    fix l
    assume h: "resolve_concept pl g a = Inr l
            \<and> (arg_validate_required_properties a \<longrightarrow>
                 (\<exists>v. validate_instance_properties g (arg_concept_type a)
                         (without_name (arg_properties a)) (label_text l) True = Inr v))"
    then have "pre_checks pl g a = Inl (ObjectPropertyValidationFailed (missing_targets g ?ops))"
      using enabled one gate by (auto simp: pre_checks_def)
    then show "create_instance_node pl g now a
               = (g, Inl (Failed ''create instance node''
                        (ObjectPropertyValidationFailed (missing_targets g ?ops))))"
      by (rule create_instance_node_of_failed_checks)
  qed
  have C: "\<forall>p t. (p, t) \<in> set (missing_targets g ?ops)
            \<longleftrightarrow> (\<exists>tv. (p, tv) \<in> set ?ops \<and> t \<in> set (target_names tv)
                      \<and> \<not> check_name_exists g t (Some ''Instance''))"
    using missing_targets_iff by blast
  from A' B C show ?thesis by (intro conjI)
qed

theorem object_property_gate_witness:
  "create_instance_node default_labels example_graph ''t0''
      (default_args ''t1'' ''Table''
         [(''a'', VInt 1), (''b'', VInt 2), (''c'', VInt 3),
          (''belongsTo'', VList [''db1'', ''db2'', ''db3''])])
     = (example_graph,
        Inl (Failed ''create instance node''
               (ObjectPropertyValidationFailed
                  [(''belongsTo'', VStr ''db2''), (''belongsTo'', VStr ''db3'')])))"
proof -
  let ?props = "[(''a'', VInt 1), (''b'', VInt 2), (''c'', VInt 3),
          (''belongsTo'', VList [''db1'', ''db2'', ''db3''])]"
  let ?a = "default_args ''t1'' ''Table'' ?props"
  have enabled: "arg_auto_create_object_property_relationships ?a"
    by (simp add: default_args_def)
  have member: "(''belongsTo'', VList [''db1'', ''db2'', ''db3''])
      \<in> set (object_properties_of example_graph (arg_properties ?a))"
    by code_simp
  have target: "VStr ''db2'' \<in> set (target_names (VList [''db1'', ''db2'', ''db3'']))"
    by simp
  have absent: "\<not> check_name_exists example_graph (VStr ''db2'') (Some ''Instance'')"
    by code_simp
  have concept: "resolve_concept default_labels example_graph ?a = Inr (Some ''Concept'')"
    by code_simp
  have "isl (validate_instance_properties example_graph (arg_concept_type ?a)
                (without_name (arg_properties ?a)) (label_text (Some ''Concept'')) True) = False"
    by code_simp
  then have valid: "\<exists>v. validate_instance_properties example_graph (arg_concept_type ?a)
                (without_name (arg_properties ?a)) (label_text (Some ''Concept'')) True = Inr v"
    by (cases "validate_instance_properties example_graph (arg_concept_type ?a)
                (without_name (arg_properties ?a)) (label_text (Some ''Concept'')) True") simp_all
  have listed: "missing_targets example_graph (object_properties_of example_graph (arg_properties ?a))
      = [(''belongsTo'', VStr ''db2''), (''belongsTo'', VStr ''db3'')]"
    by code_simp
  from object_property_gate [OF enabled member target absent, of default_labels "''t0''",
      THEN conjunct2, THEN conjunct1, rule_format, of "Some ''Concept''"] concept valid
  have "create_instance_node default_labels example_graph ''t0'' ?a
      = (example_graph, Inl (Failed ''create instance node''
           (ObjectPropertyValidationFailed
              (missing_targets example_graph (object_properties_of example_graph (arg_properties ?a))))))"
    by blast
  then show ?thesis
    unfolding listed .
qed

text \<open>
  C4 as stated fails when an earlier check fails: the call names the missing target
  \<open>ghost\<close> for the ObjectProperty \<open>belongsTo\<close>, and the error raised is the one for the
  missing required properties, which lists no target.
\<close>

theorem object_property_gate_counterexample:
  "arg_auto_create_object_property_relationships (default_args ''t1'' ''Table'' [(''belongsTo'', VStr ''ghost'')])
   \<and> object_properties_of example_graph [(''belongsTo'', VStr ''ghost'')] = [(''belongsTo'', VStr ''ghost'')]
   \<and> check_name_exists example_graph (VStr ''ghost'') (Some ''Instance'') = False
   \<and> create_instance_node default_labels example_graph ''t0''
        (default_args ''t1'' ''Table'' [(''belongsTo'', VStr ''ghost'')])
      = (example_graph,
         Inl (Failed ''create instance node''
           (MissingRequiredProperties
             \<lparr> mr_concept_label = ''Concept'', mr_concept_name = ''Table'',
               mr_direct_lines =
                 [DirectLine (VStr ''a'') (VStr ''DataProperty'') VNull VNull,
                  DirectLine (VStr ''b'') (VStr ''DataProperty'') VNull VNull],
               mr_inherited_lines =
                 [InheritedLine (VStr ''c'') (VStr ''DataProperty'') (VInt 3) (VStr ''Asset'') VNull],
               mr_total_required = 3, mr_direct_count = 2, mr_inherited_count = 1,
               mr_provided = 1, mr_missing = 3 \<rparr>)))"
  by code_simp

section \<open>An existing instance without \<open>allow_update\<close>\<close>

text \<open>
  C6.  Let the instance exist under label \<open>Instance\<close>, let \<open>allow_update\<close> be false, no
  rename be requested, and the checks before the lookup (concept, required properties,
  ObjectProperty targets) pass.  Then \<open>create_instance_node\<close> returns the existing node
  with status \<open>already_exists\<close> and zero for \<open>nodes_created\<close>, \<open>nodes_updated\<close> and
  \<open>properties_set\<close>, and the store is as it was.
\<close>

theorem existing_instance_returned_unchanged:
  assumes existing: "get_existing_node g (arg_instance_name a) (Some ''Instance'') = Some existing_node"
    and no_update: "\<not> arg_allow_update a"
    and no_rename: "\<not> rename_requested (arg_properties a) (arg_instance_name a)"
    and checks: "pre_checks pl g a = Inr concept_label"
  shows "create_instance_node pl g now a = (g, Inr (already_exists_result existing_node))
     \<and> map_of (already_exists_result existing_node) ''status'' = Some (RStr ''already_exists'')
     \<and> map_of (already_exists_result existing_node) ''nodes_created'' = Some (RNat 0)
     \<and> map_of (already_exists_result existing_node) ''nodes_updated'' = Some (RNat 0)
     \<and> map_of (already_exists_result existing_node) ''properties_set'' = Some (RNat 0)"
  using assms
  by (simp add: create_instance_node_def update_existing_def Let_def already_exists_result_def)

theorem existing_instance_returned_unchanged_witness:
  "create_instance_node default_labels instance_graph ''t0''
      (default_args ''t1'' ''Table''
         [(''a'', VInt 1), (''b'', VInt 2), (''c'', VInt 3), (''belongsTo'', VStr ''db1'')])
     = (instance_graph, Inr (already_exists_result t1_node))
   \<and> map_of (already_exists_result t1_node) ''status'' = Some (RStr ''already_exists'')"
proof -
  let ?a = "default_args ''t1'' ''Table''
         [(''a'', VInt 1), (''b'', VInt 2), (''c'', VInt 3), (''belongsTo'', VStr ''db1'')]"
  have existing: "get_existing_node instance_graph (arg_instance_name ?a) (Some ''Instance'') = Some t1_node"
    by code_simp
  have no_update: "\<not> arg_allow_update ?a"
    by (simp add: default_args_def)
  have no_rename: "\<not> rename_requested (arg_properties ?a) (arg_instance_name ?a)"
    by code_simp
  have checks: "pre_checks default_labels instance_graph ?a = Inr (Some ''Concept'')"
    by code_simp
  from existing_instance_returned_unchanged [OF existing no_update no_rename checks, of "''t0''"]
  show ?thesis by blast
qed

end
